theory Spec2Isabelle
  imports
    Complex_Main
    "HOL-Library.Word"
    "HOL-Library.Signed_Division"
    "HOL-Library.Log_Nat"
    "HOL-Library.Multiset"
begin

section \<open>govrageremote: a shallow embedding of client.go\<close>

text \<open>
  The development follows \<^verbatim>\<open>client.go\<close> of package \<^verbatim>\<open>govrageremote\<close>. Go strings and
  byte slices are \<^typ>\<open>string\<close> (lists of bytes), \<^verbatim>\<open>int64\<close> is \<^typ>\<open>64 word\<close> read
  with \<^const>\<open>sint\<close>, a nil-able pointer is an \<^typ>\<open>'a option\<close>, and a Go result pair
  \<^verbatim>\<open>(value, error)\<close> is a pair of options. Functions of the Go standard library that
  the package calls are either modelled on their documented behaviour (and marked as
  such) or taken as parameters collected in a record.
\<close>

type_synonym int64 = "64 word"

definition MaxInt64 :: int64 where
  "MaxInt64 = 9223372036854775807"

definition MinInt64 :: int64 where
  "MinInt64 = - 9223372036854775808"

subsection \<open>Decimal formatting (\<^verbatim>\<open>fmt.Sprint\<close> and the verb \<^verbatim>\<open>%d\<close> on an int64)\<close>

definition digit_char :: "nat \<Rightarrow> char" where
  "digit_char d = ''0123456789'' ! d"

fun digits :: "nat \<Rightarrow> string" where
  "digits n = (if n < 10 then [digit_char n] else digits (n div 10) @ [digit_char (n mod 10)])"

declare digits.simps [simp del]

definition decimal :: "int \<Rightarrow> string" where
  "decimal i = (if i < 0 then CHR ''-'' # digits (nat (- i)) else digits (nat i))"

definition Sprint :: "int64 \<Rightarrow> string" where
  "Sprint v = decimal (sint v)"

subsection \<open>Wall-clock time and the tick conversions\<close>

text \<open>
  A \<^verbatim>\<open>time.Time\<close> is represented by the instant it denotes, in nanoseconds since the
  Unix epoch. \<^verbatim>\<open>time.Unix(sec, nsec)\<close> accepts any \<^verbatim>\<open>nsec\<close> and denotes
  \<^verbatim>\<open>sec\<close> seconds plus \<^verbatim>\<open>nsec\<close> nanoseconds; \<^verbatim>\<open>UnixNano\<close> returns the
  nanosecond count as an int64.
\<close>

type_synonym Time = int

definition time_Unix :: "int \<Rightarrow> int \<Rightarrow> Time" where
  "time_Unix sec nsec = sec * 1000000000 + nsec"

definition UnixNano :: "Time \<Rightarrow> int64" where
  "UnixNano t = word_of_int t"

text \<open>
  \<^verbatim>\<open>func timeFromTicks(ticks int64) time.Time {
      return time.Unix(ticks/10e6-62135596800, ticks%10e6) }\<close>
  The constant \<^verbatim>\<open>10e6\<close> is ten million. Go's \<^verbatim>\<open>/\<close> and \<^verbatim>\<open>%\<close> on integers
  truncate towards zero (\<^const>\<open>signed_divide\<close>, \<^const>\<open>signed_modulo\<close>); the quotient
  of an int64 by ten million less 62135596800 stays inside int64, so the arithmetic is
  written on the signed values.
\<close>

definition timeFromTicks :: "int64 \<Rightarrow> Time" where
  "timeFromTicks ticks =
     time_Unix (sint ticks sdiv 10000000 - 62135596800) (sint ticks smod 10000000)"

text \<open>
  \<^verbatim>\<open>func ticksFromTime(value time.Time) int64 {
      return int64(((float64(value.UnixNano()) / 1e9) + 62135596800) * 10e6) }\<close>
  The arithmetic is IEEE 754 binary64. A finite binary64 value is a rational number, and
  each operation returns the exact result rounded to 53 significant bits, ties to even.
  Modelled on IEEE 754 for the normal range (no overflow, no subnormals), which holds
  every value this function computes from an int64.
\<close>

type_synonym float64 = rat

definition pow2 :: "int \<Rightarrow> rat" where
  "pow2 e = (if 0 \<le> e then 2 ^ nat e else 1 / 2 ^ nat (- e))"

definition round_half_even :: "rat \<Rightarrow> int" where
  "round_half_even q =
     (let n = \<lfloor>q\<rfloor>; r = q - of_int n
      in if r < 1 / 2 then n else if 1 / 2 < r then n + 1 else if even n then n else n + 1)"

definition float64_exponent :: "rat \<Rightarrow> int" where
  "float64_exponent q =
     (let a = fst (quotient_of \<bar>q\<bar>); b = snd (quotient_of \<bar>q\<bar>); d = bitlen a - bitlen b
      in if pow2 d \<le> \<bar>q\<bar> then d - 52 else d - 53)"

definition round_float64 :: "rat \<Rightarrow> float64" where
  "round_float64 q =
     (if q = 0 then 0
      else let e = float64_exponent q in of_int (round_half_even (q / pow2 e)) * pow2 e)"

definition float64_of_int64 :: "int64 \<Rightarrow> float64" where
  "float64_of_int64 v = round_float64 (of_int (sint v))"

definition float64_div :: "float64 \<Rightarrow> float64 \<Rightarrow> float64" where
  "float64_div x y = round_float64 (x / y)"

definition float64_add :: "float64 \<Rightarrow> float64 \<Rightarrow> float64" where
  "float64_add x y = round_float64 (x + y)"

definition float64_mul :: "float64 \<Rightarrow> float64 \<Rightarrow> float64" where
  "float64_mul x y = round_float64 (x * y)"

definition int64_of_float64 :: "float64 \<Rightarrow> int64" where
  \<comment> \<open>the conversion \<^verbatim>\<open>int64(f)\<close> discards the fraction (truncation towards zero)\<close>
  "int64_of_float64 x = word_of_int (if 0 \<le> x then \<lfloor>x\<rfloor> else - \<lfloor>- x\<rfloor>)"

definition ticksFromTime :: "Time \<Rightarrow> int64" where
  "ticksFromTime value =
     int64_of_float64
       (float64_mul
          (float64_add (float64_div (float64_of_int64 (UnixNano value)) 1000000000) 62135596800)
          10000000)"

subsection \<open>Chat messages and \<^verbatim>\<open>strconv.ParseInt\<close>\<close>

record VRageChatMessage =
  SteamID :: int64
  DisplayName :: string
  Content :: string
  Timestamp :: string

text \<open>
  \<^verbatim>\<open>strconv.ParseInt(s, 10, 64)\<close>, modelled on the Go standard library: an optional
  sign, then \<^verbatim>\<open>ParseUint\<close> reads the digits from left to right. A byte that is not a
  decimal digit is a syntax error with value 0; a value that leaves the range is a range
  error, reported as soon as the digits read so far overflow, with the value clamped to
  the nearest bound.
\<close>

datatype NumError = ErrSyntax | ErrRange

definition maxUint64 :: nat where
  "maxUint64 = 18446744073709551615"

fun ParseUint_loop :: "string \<Rightarrow> nat \<Rightarrow> nat \<times> NumError option" where
  "ParseUint_loop [] n = (n, None)"
| "ParseUint_loop (c # cs) n =
     (if 48 \<le> (of_char c :: nat) \<and> (of_char c :: nat) \<le> 57 then
        (if maxUint64 div 10 + 1 \<le> n then (maxUint64, Some ErrRange)
         else let n1 = n * 10 + (of_char c - 48)
              in if maxUint64 < n1 then (maxUint64, Some ErrRange) else ParseUint_loop cs n1)
      else (0, Some ErrSyntax))"

definition ParseUint :: "string \<Rightarrow> nat \<times> NumError option" where
  "ParseUint s = (if s = [] then (0, Some ErrSyntax) else ParseUint_loop s 0)"

definition ParseInt :: "string \<Rightarrow> int64 \<times> NumError option" where
  "ParseInt s =
     (if s = [] then (0, Some ErrSyntax)
      else
        let neg = (hd s = CHR ''-'');
            s1 = (if hd s = CHR ''+'' \<or> hd s = CHR ''-'' then tl s else s);
            un = fst (ParseUint s1);
            err = snd (ParseUint s1)
        in if err = Some ErrSyntax then (0, Some ErrSyntax)
           else if \<not> neg \<and> 2 ^ 63 \<le> un then (MaxInt64, Some ErrRange)
           else if neg \<and> 2 ^ 63 < un then (MinInt64, Some ErrRange)
           else (word_of_int (if neg then - int un else int un), None))"

text \<open>
  \<^verbatim>\<open>func (message *VRageChatMessage) GetRealTimestamp() time.Time {
      csTimestamp, _ := strconv.ParseInt(message.Timestamp, 10, 64)
      return timeFromTicks(csTimestamp) }\<close>
\<close>

definition GetRealTimestamp :: "VRageChatMessage \<Rightarrow> Time" where
  "GetRealTimestamp message = timeFromTicks (fst (ParseInt (Timestamp message)))"

subsection \<open>Errors and panics\<close>

text \<open>
  A Go \<^verbatim>\<open>error\<close> value is either made by this package with \<^verbatim>\<open>errors.New\<close> or comes
  from a library call; \<open>Error_text\<close> is its \<^verbatim>\<open>Error()\<close> string. A run-time panic
  (here always a nil pointer dereference) is the outcome \<open>Panics\<close>.
\<close>

datatype error = errors_New string | json_error string | http_error string | io_error string

fun Error_text :: "error \<Rightarrow> string" where
  "Error_text (errors_New s) = s"
| "Error_text (json_error s) = s"
| "Error_text (http_error s) = s"
| "Error_text (io_error s) = s"

datatype 'a go = Returns 'a | Panics

subsection \<open>Positions and distances\<close>

text \<open>
  Coordinates are float64. The distance computation needs a square root and may
  overflow to infinity, which the rational model above does not cover, so the float64
  operations it uses are parameters and the values range over a type \<open>'f\<close>; the
  theorems on ordering take \<open>'f\<close> to be linearly ordered, which is float64 without NaN.
\<close>

record 'f float64_ops =
  f_sub :: "'f \<Rightarrow> 'f \<Rightarrow> 'f"
  f_add :: "'f \<Rightarrow> 'f \<Rightarrow> 'f"
  f_mul :: "'f \<Rightarrow> 'f \<Rightarrow> 'f"
  f_sqrt :: "'f \<Rightarrow> 'f"

record 'f VRagePosition =
  X :: 'f
  Y :: 'f
  Z :: 'f

text \<open>
  \<^verbatim>\<open>func (pos VRagePosition) DistanceTo(other VRagePosition) float64 {
      x := other.X - pos.X; y := other.Y - pos.Y; z := other.Z - pos.Z
      return math.Sqrt(x*x + y*y + z*z) }\<close>
  and \<^verbatim>\<open>Distance(a, b)\<close>, the same computation on \<^verbatim>\<open>a.GetPosition()\<close> and
  \<^verbatim>\<open>b.GetPosition()\<close>.
\<close>

definition DistanceTo :: "'f float64_ops \<Rightarrow> 'f VRagePosition \<Rightarrow> 'f VRagePosition \<Rightarrow> 'f" where
  "DistanceTo F pos other =
     (let x = f_sub F (X other) (X pos);
          y = f_sub F (Y other) (Y pos);
          z = f_sub F (Z other) (Z pos)
      in f_sqrt F (f_add F (f_add F (f_mul F x x) (f_mul F y y)) (f_mul F z z)))"

definition Distance :: "'f float64_ops \<Rightarrow> 'f VRagePosition \<Rightarrow> 'f VRagePosition \<Rightarrow> 'f" where
  "Distance F ap bp =
     (let x = f_sub F (X bp) (X ap);
          y = f_sub F (Y bp) (Y ap);
          z = f_sub F (Z bp) (Z ap)
      in f_sqrt F (f_add F (f_add F (f_mul F x x) (f_mul F y y)) (f_mul F z z)))"

subsection \<open>The client, the entities and the response envelope\<close>

text \<open>
  Clients live in a store indexed by address, because entities hold a pointer to the
  client that produced them and the client's counter changes with every request. The
  field \<^verbatim>\<open>httpClient\<close> is the transport; its behaviour during one call is part of the
  input of that call (\<open>io\<close> below).
\<close>

record VRageRemoteClient =
  BaseURL :: string
  RemoteAddress :: string
  Key :: string
  nonce :: int64

definition NewVRageRemoteClient :: "string \<Rightarrow> string \<Rightarrow> Time \<Rightarrow> VRageRemoteClient" where
  \<comment> \<open>the third argument is the reading of \<^verbatim>\<open>time.Now()\<close>\<close>
  "NewVRageRemoteClient remoteAddress key clock =
     \<lparr>BaseURL = ''/vrageremote/v1'', RemoteAddress = remoteAddress, Key = key,
      nonce = UnixNano clock\<rparr>"

record 'f VRageRemoteGrid =
  Grid_client :: "nat option"
  Grid_DisplayName :: string
  Grid_EntityID :: int64
  Grid_GridSize :: string
  Grid_BlocksCount :: int64
  Grid_Mass :: 'f
  Grid_Position :: "'f VRagePosition"
  Grid_LinearSpeed :: 'f
  Grid_DistanceToPlayer :: 'f
  Grid_OwnerSteamID :: int64
  Grid_OwnerDisplayName :: string
  Grid_IsPowered :: bool
  Grid_PCU :: int64

record 'f VRageRemoteFloatingObject =
  Object_client :: "nat option"
  Object_DisplayName :: string
  Object_EntityID :: int64
  Object_Kind :: string
  Object_Mass :: 'f
  Object_Position :: "'f VRagePosition"
  Object_LinearSpeed :: 'f
  Object_DistanceToPlayer :: 'f

record 'f VRageRemoteResponseMeta =
  ApiVersion :: string
  QueryTime :: 'f

record VRageRemoteResponseError =
  Message :: string

record 'f VRageRemoteResponse =
  Error :: "VRageRemoteResponseError option"
  Meta :: "'f VRageRemoteResponseMeta option"

text \<open>
  Every typed response struct has the same two fields: the embedded pointer
  \<^verbatim>\<open>*VRageRemoteResponse\<close> and \<^verbatim>\<open>Data *T\<close>. Both are nil until the decoder meets a
  matching key; the promoted field \<^verbatim>\<open>response.Error\<close> reads through the embedded
  pointer. Slices hold pointers to entities, so their elements can be nil.
\<close>

record ('f, 'd) typed_response =
  Embedded :: "'f VRageRemoteResponse option"
  Data :: "'d option"

record 'f VRageRemoteGridList =
  Grids :: "'f VRageRemoteGrid option list"

record 'f VRageRemoteFloatingObjectList =
  FloatingObjects :: "'f VRageRemoteFloatingObject option list"

record VRageRemoteChatMessageList =
  Messages :: "VRageChatMessage option list"

type_synonym 'f VRageRemoteGridListResponse = "('f, 'f VRageRemoteGridList) typed_response"
type_synonym 'f VRageRemoteFloatingObjectListResponse =
  "('f, 'f VRageRemoteFloatingObjectList) typed_response"
type_synonym 'f VRageRemoteChatMessageListResponse =
  "('f, VRageRemoteChatMessageList) typed_response"

subsection \<open>HTTP requests and the library parameters\<close>

record http_request =
  Method :: string
  URL :: string
  Header :: "(string \<times> string) list"
  Body :: "string option"

record http_response =
  StatusCode :: nat
  ResponseBody :: "error + string"
    \<comment> \<open>what \<^verbatim>\<open>ioutil.ReadAll(response.Body)\<close> returns\<close>

text \<open>
  \<^verbatim>\<open>url.Values\<close> is a map from a key to a list of values; it is kept as an association
  list with one entry per key, so that \<^verbatim>\<open>len(query)\<close> is its length. A nil map is
  \<open>None\<close>.
\<close>

type_synonym url_Values = "(string \<times> string list) list"

text \<open>
  The functions of the Go standard library that \<^verbatim>\<open>scanResponse\<close> and the operations
  call and whose results are not computed here: base64 in the standard encoding
  (decoding fails with \<open>None\<close>), HMAC-SHA1 of a message under a key, the URL encoding
  of a query, the escaping that \<^verbatim>\<open>json.Marshal\<close> applies inside a string, the reasons
  for which \<^verbatim>\<open>http.NewRequest\<close> refuses a method or a URL, and \<^verbatim>\<open>json.Unmarshal\<close>
  into each response type.
\<close>

record 'f stdlib =
  DecodeString :: "string \<Rightarrow> string option"
  EncodeToString :: "string \<Rightarrow> string"
  hmac_sha1 :: "string \<Rightarrow> string \<Rightarrow> string"
  Values_Encode :: "url_Values \<Rightarrow> string"
  json_escape :: "string \<Rightarrow> string"
  NewRequest_refuses :: "string \<Rightarrow> string \<Rightarrow> error option"
  Unmarshal_Response :: "string \<Rightarrow> error + 'f VRageRemoteResponse"
  Unmarshal_GridListResponse :: "string \<Rightarrow> error + 'f VRageRemoteGridListResponse"
  Unmarshal_FloatingObjectListResponse ::
    "string \<Rightarrow> error + 'f VRageRemoteFloatingObjectListResponse"
  Unmarshal_ChatMessageListResponse :: "string \<Rightarrow> error + 'f VRageRemoteChatMessageListResponse"

text \<open>
  \<^verbatim>\<open>json.Marshal\<close> of a Go string is a JSON string literal: a double quote, the escaped
  content, a double quote. It does not fail.
\<close>

definition json_Marshal :: "'f stdlib \<Rightarrow> string \<Rightarrow> error + string" where
  "json_Marshal L v = Inr ([CHR 0x22] @ json_escape L v @ [CHR 0x22])"

text \<open>
  \<^verbatim>\<open>http.NewRequest(method, url, body)\<close> returns a request with that method, URL and
  body and no header, unless it refuses the method or cannot parse the URL.
\<close>

definition NewRequest :: "'f stdlib \<Rightarrow> string \<Rightarrow> string \<Rightarrow> string option \<Rightarrow> error + http_request" where
  "NewRequest L method url body =
     (case NewRequest_refuses L method url of
        Some err \<Rightarrow> Inl err
      | None \<Rightarrow> Inr \<lparr>Method = method, URL = url, Header = [], Body = body\<rparr>)"

definition Header_Add :: "http_request \<Rightarrow> string \<Rightarrow> string \<Rightarrow> http_request" where
  "Header_Add request k v = request\<lparr>Header := Header request @ [(k, v)]\<rparr>"

text \<open>
  What one call reads from its environment: the clock, already formatted by
  \<^verbatim>\<open>time.Now().UTC().Format(time.RFC1123Z)\<close>, and the behaviour of
  \<^verbatim>\<open>client.httpClient.Do\<close> on the request it is given.
\<close>

record io =
  now :: string
  Do :: "http_request \<Rightarrow> error + http_response"

text \<open>
  The state: the clients in the store, and the requests handed to
  \<^verbatim>\<open>httpClient.Do\<close> so far, in order.
\<close>

record world =
  clients :: "nat \<Rightarrow> VRageRemoteClient"
  wire :: "http_request list"

subsection \<open>\<^verbatim>\<open>scanResponse\<close>\<close>

definition CRLF :: string where
  "CRLF = [CHR 0x0D, CHR 0x0A]"

text \<open>
  Lines 768 to 772: \<^verbatim>\<open>methodURL := client.BaseURL + "/" + resource\<close>, then
  \<^verbatim>\<open>if query != nil && len(query) > 0 { methodURL += "?" + query.Encode() }\<close>.
\<close>

definition methodURL :: "'f stdlib \<Rightarrow> VRageRemoteClient \<Rightarrow> string \<Rightarrow> url_Values option \<Rightarrow> string" where
  "methodURL L client resource query =
     (let url = BaseURL client @ ''/'' @ resource
      in case query of
           None \<Rightarrow> url
         | Some q \<Rightarrow> if 0 < length q then url @ ''?'' @ Values_Encode L q else url)"

text \<open>
  Lines 774 to 781: the body reader is nil for a nil body, and holds
  \<^verbatim>\<open>json.Marshal(body)\<close> otherwise. The only bodies the package passes are strings.
\<close>

definition bodyReader :: "'f stdlib \<Rightarrow> string option \<Rightarrow> error + string option" where
  "bodyReader L body =
     (case body of
        None \<Rightarrow> Inr None
      | Some v \<Rightarrow> (case json_Marshal L v of Inl err \<Rightarrow> Inl err | Inr bs \<Rightarrow> Inr (Some bs)))"

text \<open>
  Lines 796 to 805: the digest and the three headers.
\<close>

definition encodedHash :: "'f stdlib \<Rightarrow> string \<Rightarrow> string \<Rightarrow> string \<Rightarrow> string \<Rightarrow> string" where
  "encodedHash L keyDecoded url nounce date =
     EncodeToString L (hmac_sha1 L keyDecoded (url @ CRLF @ nounce @ CRLF @ date @ CRLF))"

definition add_headers :: "http_request \<Rightarrow> string option \<Rightarrow> string \<Rightarrow> string \<Rightarrow> string \<Rightarrow> http_request" where
  "add_headers request body nounce hash date =
     (let request1 = (if body \<noteq> None then Header_Add request ''Content-Type'' ''application/json''
                      else request);
          request2 = Header_Add request1 ''Authorization'' (nounce @ '':'' @ hash)
      in Header_Add request2 ''Date'' date)"

text \<open>
  Lines 807 to 823: the round trip, reading the body, decoding into the response struct.
  The status code of the response is never looked at.
\<close>

definition receive :: "io \<Rightarrow> http_request \<Rightarrow> (string \<Rightarrow> error + 'r) \<Rightarrow> error + 'r" where
  "receive env request unmarshal =
     (case Do env request of
        Inl err \<Rightarrow> Inl err
      | Inr response \<Rightarrow>
          (case ResponseBody response of
             Inl err \<Rightarrow> Inl err
           | Inr bodyBytes \<Rightarrow> unmarshal bodyBytes))"

text \<open>
  The whole function. It runs under the package-wide \<^verbatim>\<open>requestMutex\<close>, taken on entry
  and released by a deferred unlock on every way out. The client is the one at address
  \<open>p\<close>; the result is the error, or the response struct as \<^verbatim>\<open>json.Unmarshal\<close> filled
  it.
\<close>

definition scanResponse ::
  "'f stdlib \<Rightarrow> io \<Rightarrow> world \<Rightarrow> nat \<Rightarrow> string \<Rightarrow> string \<Rightarrow> url_Values option \<Rightarrow> string option \<Rightarrow>
   (string \<Rightarrow> error + 'r) \<Rightarrow> world \<times> (error + 'r)" where
  "scanResponse L env w p method resource query body unmarshal =
     (let client = clients w p;
          url = methodURL L client resource query
      in case bodyReader L body of
           Inl err \<Rightarrow> (w, Inl err)
         | Inr reader \<Rightarrow>
             (case NewRequest L method (RemoteAddress client @ url) reader of
                Inl err \<Rightarrow> (w, Inl err)
              | Inr request \<Rightarrow>
                  (let date = now env;
                       nounce = Sprint (nonce client);
                       w1 = w\<lparr>clients := (clients w)(p := client\<lparr>nonce := nonce client + 1\<rparr>)\<rparr>
                   in case DecodeString L (Key client) of
                        None \<Rightarrow> (w1, Inl (errors_New ''error decoding client key''))
                      | Some keyDecoded \<Rightarrow>
                          (let hash = encodedHash L keyDecoded url nounce date;
                               signed = add_headers request body nounce hash date;
                               w2 = w1\<lparr>wire := wire w1 @ [signed]\<rparr>
                           in (w2, receive env signed unmarshal)))))"

subsection \<open>Operations that return only an error\<close>

text \<open>
  Each of these methods is the same five lines around its own call of
  \<^verbatim>\<open>scanResponse\<close> into a fresh \<^verbatim>\<open>VRageRemoteResponse\<close>:
  \<^verbatim>\<open>if err != nil { return err }
  if response.Error != nil { return errors.New(response.Error.Message) }
  return nil\<close>
  \<open>envelope_error\<close> is those lines; the methods below differ in verb, resource, query
  and body only.
\<close>

definition envelope_error :: "world \<times> (error + 'f VRageRemoteResponse) \<Rightarrow> world \<times> error option" where
  "envelope_error r =
     (case snd r of
        Inl err \<Rightarrow> (fst r, Some err)
      | Inr response \<Rightarrow>
          (case Error response of
             Some e \<Rightarrow> (fst r, Some (errors_New (Message e)))
           | None \<Rightarrow> (fst r, None)))"

definition Save :: "'f stdlib \<Rightarrow> io \<Rightarrow> world \<Rightarrow> nat \<Rightarrow> world \<times> error option" where
  "Save L env w p =
     envelope_error (scanResponse L env w p ''PATCH'' ''session'' None None (Unmarshal_Response L))"

definition SaveAs :: "'f stdlib \<Rightarrow> io \<Rightarrow> world \<Rightarrow> nat \<Rightarrow> string \<Rightarrow> world \<times> error option" where
  "SaveAs L env w p name =
     (let query = [(''savename'', [name])]
      in envelope_error
           (scanResponse L env w p ''PATCH'' ''session'' (Some query) None (Unmarshal_Response L)))"

definition StopServer :: "'f stdlib \<Rightarrow> io \<Rightarrow> world \<Rightarrow> nat \<Rightarrow> world \<times> error option" where
  "StopServer L env w p =
     envelope_error (scanResponse L env w p ''DELETE'' ''server'' None None (Unmarshal_Response L))"

definition StopCharacter :: "'f stdlib \<Rightarrow> io \<Rightarrow> world \<Rightarrow> nat \<Rightarrow> int64 \<Rightarrow> world \<times> error option" where
  "StopCharacter L env w p entityID =
     envelope_error
       (scanResponse L env w p ''PATCH'' (''session/characters/'' @ Sprint entityID) None None
          (Unmarshal_Response L))"

definition DeleteAsteroid :: "'f stdlib \<Rightarrow> io \<Rightarrow> world \<Rightarrow> nat \<Rightarrow> int64 \<Rightarrow> world \<times> error option" where
  "DeleteAsteroid L env w p entityID =
     envelope_error
       (scanResponse L env w p ''DELETE'' (''session/asteroids/'' @ Sprint entityID) None None
          (Unmarshal_Response L))"

definition DeleteFloatingObject :: "'f stdlib \<Rightarrow> io \<Rightarrow> world \<Rightarrow> nat \<Rightarrow> int64 \<Rightarrow> world \<times> error option" where
  "DeleteFloatingObject L env w p entityID =
     envelope_error
       (scanResponse L env w p ''DELETE'' (''session/floatingObjects/'' @ Sprint entityID) None None
          (Unmarshal_Response L))"

definition StopFloatingObject :: "'f stdlib \<Rightarrow> io \<Rightarrow> world \<Rightarrow> nat \<Rightarrow> int64 \<Rightarrow> world \<times> error option" where
  "StopFloatingObject L env w p entityID =
     envelope_error
       (scanResponse L env w p ''PATCH'' (''session/floatingObjects/'' @ Sprint entityID) None None
          (Unmarshal_Response L))"

definition DeleteGrid :: "'f stdlib \<Rightarrow> io \<Rightarrow> world \<Rightarrow> nat \<Rightarrow> int64 \<Rightarrow> world \<times> error option" where
  "DeleteGrid L env w p entityID =
     envelope_error
       (scanResponse L env w p ''DELETE'' (''session/grids/'' @ Sprint entityID) None None
          (Unmarshal_Response L))"

definition StopGrid :: "'f stdlib \<Rightarrow> io \<Rightarrow> world \<Rightarrow> nat \<Rightarrow> int64 \<Rightarrow> world \<times> error option" where
  "StopGrid L env w p entityID =
     envelope_error
       (scanResponse L env w p ''PATCH'' (''session/grids/'' @ Sprint entityID) None None
          (Unmarshal_Response L))"

definition PowerUpGrid :: "'f stdlib \<Rightarrow> io \<Rightarrow> world \<Rightarrow> nat \<Rightarrow> int64 \<Rightarrow> world \<times> error option" where
  "PowerUpGrid L env w p entityID =
     envelope_error
       (scanResponse L env w p ''POST'' (''session/poweredGrids/'' @ Sprint entityID) None None
          (Unmarshal_Response L))"

definition PowerDownGrid :: "'f stdlib \<Rightarrow> io \<Rightarrow> world \<Rightarrow> nat \<Rightarrow> int64 \<Rightarrow> world \<times> error option" where
  "PowerDownGrid L env w p entityID =
     envelope_error
       (scanResponse L env w p ''DELETE'' (''session/poweredGrids/'' @ Sprint entityID) None None
          (Unmarshal_Response L))"

definition DeletePlanet :: "'f stdlib \<Rightarrow> io \<Rightarrow> world \<Rightarrow> nat \<Rightarrow> int64 \<Rightarrow> world \<times> error option" where
  "DeletePlanet L env w p entityID =
     envelope_error
       (scanResponse L env w p ''DELETE'' (''session/planets/'' @ Sprint entityID) None None
          (Unmarshal_Response L))"

definition SendChat :: "'f stdlib \<Rightarrow> io \<Rightarrow> world \<Rightarrow> nat \<Rightarrow> string \<Rightarrow> world \<times> error option" where
  "SendChat L env w p content =
     envelope_error
       (scanResponse L env w p ''POST'' ''session/chat'' None (Some content) (Unmarshal_Response L))"

definition PromotePlayer :: "'f stdlib \<Rightarrow> io \<Rightarrow> world \<Rightarrow> nat \<Rightarrow> int64 \<Rightarrow> world \<times> error option" where
  "PromotePlayer L env w p steamID =
     envelope_error
       (scanResponse L env w p ''POST'' (''admin/promotedPlayers/'' @ Sprint steamID) None None
          (Unmarshal_Response L))"

definition DemotePlayer :: "'f stdlib \<Rightarrow> io \<Rightarrow> world \<Rightarrow> nat \<Rightarrow> int64 \<Rightarrow> world \<times> error option" where
  "DemotePlayer L env w p steamID =
     envelope_error
       (scanResponse L env w p ''DELETE'' (''admin/promotedPlayers/'' @ Sprint steamID) None None
          (Unmarshal_Response L))"

definition BanPlayer :: "'f stdlib \<Rightarrow> io \<Rightarrow> world \<Rightarrow> nat \<Rightarrow> int64 \<Rightarrow> world \<times> error option" where
  "BanPlayer L env w p steamID =
     envelope_error
       (scanResponse L env w p ''POST'' (''admin/bannedPlayers/'' @ Sprint steamID) None None
          (Unmarshal_Response L))"

definition UnbanPlayer :: "'f stdlib \<Rightarrow> io \<Rightarrow> world \<Rightarrow> nat \<Rightarrow> int64 \<Rightarrow> world \<times> error option" where
  "UnbanPlayer L env w p steamID =
     envelope_error
       (scanResponse L env w p ''DELETE'' (''admin/bannedPlayers/'' @ Sprint steamID) None None
          (Unmarshal_Response L))"

definition KickPlayer :: "'f stdlib \<Rightarrow> io \<Rightarrow> world \<Rightarrow> nat \<Rightarrow> int64 \<Rightarrow> world \<times> error option" where
  "KickPlayer L env w p steamID =
     envelope_error
       (scanResponse L env w p ''POST'' (''admin/kickedPlayers/'' @ Sprint steamID) None None
          (Unmarshal_Response L))"

definition UnkickPlayer :: "'f stdlib \<Rightarrow> io \<Rightarrow> world \<Rightarrow> nat \<Rightarrow> int64 \<Rightarrow> world \<times> error option" where
  "UnkickPlayer L env w p steamID =
     envelope_error
       (scanResponse L env w p ''DELETE'' (''admin/kickedPlayers/'' @ Sprint steamID) None None
          (Unmarshal_Response L))"

subsection \<open>Operations that return data\<close>

text \<open>
  \<^verbatim>\<open>for _, grid := range response.Data.Grids { grid.client = client }\<close>: the
  assignment goes through each pointer of the slice and panics at a nil one.
\<close>

fun wire_grids :: "nat \<Rightarrow> 'f VRageRemoteGrid option list \<Rightarrow> 'f VRageRemoteGrid option list option" where
  "wire_grids p [] = Some []"
| "wire_grids p (None # gs) = None"
| "wire_grids p (Some grid # gs) =
     (case wire_grids p gs of
        None \<Rightarrow> None
      | Some gs' \<Rightarrow> Some (Some (grid\<lparr>Grid_client := Some p\<rparr>) # gs'))"

fun wire_objects ::
  "nat \<Rightarrow> 'f VRageRemoteFloatingObject option list \<Rightarrow> 'f VRageRemoteFloatingObject option list option" where
  "wire_objects p [] = Some []"
| "wire_objects p (None # os) = None"
| "wire_objects p (Some object # os) =
     (case wire_objects p os of
        None \<Rightarrow> None
      | Some os' \<Rightarrow> Some (Some (object\<lparr>Object_client := Some p\<rparr>) # os'))"

text \<open>
  \<^verbatim>\<open>GetGrids\<close>, lines 537 to 552. The result is the Go pair
  \<^verbatim>\<open>(*VRageRemoteGridListResponse, error)\<close>. \<^verbatim>\<open>response.Error\<close> dereferences the
  embedded pointer and \<^verbatim>\<open>response.Data.Grids\<close> dereferences \<^verbatim>\<open>Data\<close>.
\<close>

definition GetGrids ::
  "'f stdlib \<Rightarrow> io \<Rightarrow> world \<Rightarrow> nat \<Rightarrow>
   world \<times> ('f VRageRemoteGridListResponse option \<times> error option) go" where
  "GetGrids L env w p =
     (let r = scanResponse L env w p ''GET'' ''session/grids'' None None
                (Unmarshal_GridListResponse L)
      in case snd r of
           Inl err \<Rightarrow> (fst r, Returns (None, Some err))
         | Inr response \<Rightarrow>
             (case Embedded response of
                None \<Rightarrow> (fst r, Panics)
              | Some envelope \<Rightarrow>
                  (case Error envelope of
                     Some e \<Rightarrow> (fst r, Returns (None, Some (errors_New (Message e))))
                   | None \<Rightarrow>
                       (case Data response of
                          None \<Rightarrow> (fst r, Panics)
                        | Some data \<Rightarrow>
                            (case wire_grids p (Grids data) of
                               None \<Rightarrow> (fst r, Panics)
                             | Some grids \<Rightarrow>
                                 (fst r,
                                  Returns
                                    (Some (response\<lparr>Data := Some (data\<lparr>Grids := grids\<rparr>)\<rparr>),
                                     None)))))))"

definition GetFloatingObjects ::
  "'f stdlib \<Rightarrow> io \<Rightarrow> world \<Rightarrow> nat \<Rightarrow>
   world \<times> ('f VRageRemoteFloatingObjectListResponse option \<times> error option) go" where
  "GetFloatingObjects L env w p =
     (let r = scanResponse L env w p ''GET'' ''session/floatingObjects'' None None
                (Unmarshal_FloatingObjectListResponse L)
      in case snd r of
           Inl err \<Rightarrow> (fst r, Returns (None, Some err))
         | Inr response \<Rightarrow>
             (case Embedded response of
                None \<Rightarrow> (fst r, Panics)
              | Some envelope \<Rightarrow>
                  (case Error envelope of
                     Some e \<Rightarrow> (fst r, Returns (None, Some (errors_New (Message e))))
                   | None \<Rightarrow>
                       (case Data response of
                          None \<Rightarrow> (fst r, Panics)
                        | Some data \<Rightarrow>
                            (case wire_objects p (FloatingObjects data) of
                               None \<Rightarrow> (fst r, Panics)
                             | Some objects \<Rightarrow>
                                 (fst r,
                                  Returns
                                    (Some (response\<lparr>Data :=
                                             Some (data\<lparr>FloatingObjects := objects\<rparr>)\<rparr>),
                                     None)))))))"

text \<open>
  \<^verbatim>\<open>GetChat\<close>, lines 626 to 636: no entity is wired, \<^verbatim>\<open>Data\<close> is not looked at.
  The getters for characters, players, asteroids and planets have the text of
  \<^verbatim>\<open>GetGrids\<close>, and those for the server info and the banned and kicked players the
  text of \<^verbatim>\<open>GetChat\<close>, each with its own payload type; they are not repeated here.
\<close>

definition GetChat ::
  "'f stdlib \<Rightarrow> io \<Rightarrow> world \<Rightarrow> nat \<Rightarrow>
   world \<times> ('f VRageRemoteChatMessageListResponse option \<times> error option) go" where
  "GetChat L env w p =
     (let r = scanResponse L env w p ''GET'' ''session/chat'' None None
                (Unmarshal_ChatMessageListResponse L)
      in case snd r of
           Inl err \<Rightarrow> (fst r, Returns (None, Some err))
         | Inr response \<Rightarrow>
             (case Embedded response of
                None \<Rightarrow> (fst r, Panics)
              | Some envelope \<Rightarrow>
                  (case Error envelope of
                     Some e \<Rightarrow> (fst r, Returns (None, Some (errors_New (Message e))))
                   | None \<Rightarrow> (fst r, Returns (Some response, None)))))"

subsection \<open>Methods of the entities\<close>

text \<open>
  Each forwards to the client behind the entity's back-reference, with the entity's own
  identifier: \<^verbatim>\<open>return grid.client.DeleteGrid(grid.EntityID)\<close>. With a nil
  back-reference the call panics when \<^verbatim>\<open>scanResponse\<close> reads \<^verbatim>\<open>client.BaseURL\<close>.
\<close>

definition Grid_Delete :: "'f stdlib \<Rightarrow> io \<Rightarrow> world \<Rightarrow> 'f VRageRemoteGrid \<Rightarrow> world \<times> error option go" where
  "Grid_Delete L env w grid =
     (case Grid_client grid of
        None \<Rightarrow> (w, Panics)
      | Some c \<Rightarrow> map_prod id Returns (DeleteGrid L env w c (Grid_EntityID grid)))"

definition Grid_Stop :: "'f stdlib \<Rightarrow> io \<Rightarrow> world \<Rightarrow> 'f VRageRemoteGrid \<Rightarrow> world \<times> error option go" where
  "Grid_Stop L env w grid =
     (case Grid_client grid of
        None \<Rightarrow> (w, Panics)
      | Some c \<Rightarrow> map_prod id Returns (StopGrid L env w c (Grid_EntityID grid)))"

definition Grid_PowerUp :: "'f stdlib \<Rightarrow> io \<Rightarrow> world \<Rightarrow> 'f VRageRemoteGrid \<Rightarrow> world \<times> error option go" where
  "Grid_PowerUp L env w grid =
     (case Grid_client grid of
        None \<Rightarrow> (w, Panics)
      | Some c \<Rightarrow> map_prod id Returns (PowerUpGrid L env w c (Grid_EntityID grid)))"

definition Grid_PowerDown :: "'f stdlib \<Rightarrow> io \<Rightarrow> world \<Rightarrow> 'f VRageRemoteGrid \<Rightarrow> world \<times> error option go" where
  "Grid_PowerDown L env w grid =
     (case Grid_client grid of
        None \<Rightarrow> (w, Panics)
      | Some c \<Rightarrow> map_prod id Returns (PowerDownGrid L env w c (Grid_EntityID grid)))"

definition Object_Stop ::
  "'f stdlib \<Rightarrow> io \<Rightarrow> world \<Rightarrow> 'f VRageRemoteFloatingObject \<Rightarrow> world \<times> error option go" where
  "Object_Stop L env w object =
     (case Object_client object of
        None \<Rightarrow> (w, Panics)
      | Some c \<Rightarrow> map_prod id Returns (StopFloatingObject L env w c (Object_EntityID object)))"

definition Object_Delete ::
  "'f stdlib \<Rightarrow> io \<Rightarrow> world \<Rightarrow> 'f VRageRemoteFloatingObject \<Rightarrow> world \<times> error option go" where
  "Object_Delete L env w object =
     (case Object_client object of
        None \<Rightarrow> (w, Panics)
      | Some c \<Rightarrow> map_prod id Returns (DeleteFloatingObject L env w c (Object_EntityID object)))"

subsection \<open>Nearest grids\<close>

text \<open>
  \<^verbatim>\<open>sort.SliceStable(x, less)\<close>, modelled on the Go standard library: a stable sort,
  which on the slice it is given runs an insertion sort where each element in turn moves
  towards the front for as long as \<^verbatim>\<open>less\<close> holds between it and the element before
  it (longer slices are sorted in blocks of that kind, then merged, with the same
  contract). \<open>sift\<close> holds the part sorted so far back to front.
\<close>

fun sift :: "('a \<Rightarrow> 'a \<Rightarrow> bool) \<Rightarrow> 'a \<Rightarrow> 'a list \<Rightarrow> 'a list" where
  "sift lt x [] = [x]"
| "sift lt x (y # ys) = (if lt x y then y # sift lt x ys else x # y # ys)"

definition SliceStable :: "('a \<Rightarrow> 'a \<Rightarrow> bool) \<Rightarrow> 'a list \<Rightarrow> 'a list" where
  "SliceStable lt xs = rev (foldl (\<lambda>front x. sift lt x front) [] xs)"

text \<open>
  \<^verbatim>\<open>GetNearestGridsIf\<close>, lines 211 to 229. The callback receives each grid of the
  response in turn; the comparison of the sort is
  \<^verbatim>\<open>object.Position.DistanceTo(grids[i].Position) < object.Position.DistanceTo(grids[j].Position)\<close>.
  The grids are read through the pointers of the response, which \<^verbatim>\<open>GetGrids\<close> has
  just assigned through; the branches for a nil pointer are kept for totality.
\<close>

definition nearer ::
  "('f::linorder) float64_ops \<Rightarrow> 'f VRagePosition \<Rightarrow> 'f VRageRemoteGrid \<Rightarrow> 'f VRageRemoteGrid \<Rightarrow> bool" where
  "nearer F origin a b =
     (DistanceTo F origin (Grid_Position a) < DistanceTo F origin (Grid_Position b))"

definition GetNearestGridsIf ::
  "('f::linorder) float64_ops \<Rightarrow> 'f stdlib \<Rightarrow> io \<Rightarrow> world \<Rightarrow> 'f VRageRemoteFloatingObject \<Rightarrow>
   ('f VRageRemoteGrid \<Rightarrow> bool) \<Rightarrow> world \<times> ('f VRageRemoteGrid list \<times> error option) go" where
  "GetNearestGridsIf F L env w object fnc =
     (case Object_client object of
        None \<Rightarrow> (w, Panics)
      | Some c \<Rightarrow>
          (let r = GetGrids L env w c
           in case snd r of
                Panics \<Rightarrow> (fst r, Panics)
              | Returns (gridsResponse, err) \<Rightarrow>
                  (case err of
                     Some e \<Rightarrow> (fst r, Returns ([], Some e))
                   | None \<Rightarrow>
                       (case gridsResponse of
                          None \<Rightarrow> (fst r, Panics)
                        | Some response \<Rightarrow>
                            (case Data response of
                               None \<Rightarrow> (fst r, Panics)
                             | Some data \<Rightarrow>
                                 (case those (Grids data) of
                                    None \<Rightarrow> (fst r, Panics)
                                  | Some candidates \<Rightarrow>
                                      (let grids = filter fnc candidates
                                       in (fst r,
                                           Returns
                                             (SliceStable (nearer F (Object_Position object)) grids,
                                              None)))))))))"

definition GetNearestGrids ::
  "('f::linorder) float64_ops \<Rightarrow> 'f stdlib \<Rightarrow> io \<Rightarrow> world \<Rightarrow> 'f VRageRemoteFloatingObject \<Rightarrow>
   world \<times> ('f VRageRemoteGrid list \<times> error option) go" where
  "GetNearestGrids F L env w object = GetNearestGridsIf F L env w object (\<lambda>grid. True)"

subsection \<open>Sequences of requests on one client\<close>




text \<open>
  The nonce a request was signed with, as it stands in the request: the part of the
  \<^verbatim>\<open>Authorization\<close> header before the colon.
\<close>

definition header_value :: "http_request \<Rightarrow> string \<Rightarrow> string option" where
  "header_value request k = map_of (Header request) k"


subsection \<open>The request that \<^verbatim>\<open>scanResponse\<close> sends, written out\<close>

definition signed_request ::
  "'f stdlib \<Rightarrow> io \<Rightarrow> VRageRemoteClient \<Rightarrow> string \<Rightarrow> string \<Rightarrow> url_Values option \<Rightarrow>
   string option \<Rightarrow> string \<Rightarrow> http_request" where
  "signed_request L env c method resource query body keyDecoded =
     \<lparr>Method = method,
      URL = RemoteAddress c @ methodURL L c resource query,
      Header =
        (if body \<noteq> None then [(''Content-Type'', ''application/json'')] else []) @
        [(''Authorization'',
          Sprint (nonce c) @ '':'' @
          EncodeToString L
            (hmac_sha1 L keyDecoded
               (methodURL L c resource query @ CRLF @ Sprint (nonce c) @ CRLF @ now env @ CRLF))),
         (''Date'', now env)],
      Body = map_option (\<lambda>v. [CHR 0x22] @ json_escape L v @ [CHR 0x22]) body\<rparr>"

subsection \<open>An instance of the library parameters, for running the model\<close>

text \<open>
  The theorems below hold for every value of the library parameters. To run the model on
  concrete inputs the parameters are instantiated as follows. Base64 decoding accepts the
  strings of base64 symbols whose length is a multiple of four; decoding, encoding and
  the MAC are kept symbolic, so that a result shows what was computed from what. The
  query encoding joins \<open>key=value\<close> pairs, the JSON escaping leaves plain text as it
  is, a request is refused for an empty method or a control byte in the URL (two of the
  reasons of the Go library), and the decoders know the response bodies listed here.
  Floats are real numbers.
\<close>

definition is_base64_symbol :: "char \<Rightarrow> bool" where
  "is_base64_symbol c =
     (let n = (of_char c :: nat)
      in (65 \<le> n \<and> n \<le> 90) \<or> (97 \<le> n \<and> n \<le> 122) \<or> (48 \<le> n \<and> n \<le> 57) \<or>
         n = 43 \<or> n = 47 \<or> n = 61)"

definition is_control :: "char \<Rightarrow> bool" where
  "is_control c = ((of_char c :: nat) < 32 \<or> (of_char c :: nat) = 127)"

fun join_pairs :: "string list \<Rightarrow> string" where
  "join_pairs [] = []"
| "join_pairs [x] = x"
| "join_pairs (x # y # zs) = x @ ''&'' @ join_pairs (y # zs)"

definition body_not_found :: string where
  \<open>body_not_found = ''{"error":{"message":"not found"}}''\<close>

definition body_meta_only :: string where
  \<open>body_meta_only = ''{"meta":{"apiVersion":"1.0","queryTime":0}}''\<close>

definition body_four_grids :: string where
  \<open>body_four_grids =
     ''{"data":{"Grids":[{"EntityId":101,"Position":{"X":5}},{"EntityId":102,"Position":{"X":1}},'' @
     ''{"EntityId":103,"Position":{"X":3}},{"EntityId":104,"Position":{"X":-1}}]},'' @
     ''"meta":{"apiVersion":"1.0","queryTime":0}}''\<close>

definition example_meta :: "real VRageRemoteResponse" where
  "example_meta = \<lparr>Error = None, Meta = Some \<lparr>ApiVersion = ''1.0'', QueryTime = 0\<rparr>\<rparr>"

definition example_not_found :: "real VRageRemoteResponse" where
  "example_not_found = \<lparr>Error = Some \<lparr>Message = ''not found''\<rparr>, Meta = None\<rparr>"

definition example_grid :: "int64 \<Rightarrow> real \<Rightarrow> real VRageRemoteGrid" where
  \<comment> \<open>a grid as decoded from an object that has only \<^verbatim>\<open>EntityId\<close> and \<^verbatim>\<open>Position.X\<close>\<close>
  "example_grid entityID x =
     \<lparr>Grid_client = None, Grid_DisplayName = [], Grid_EntityID = entityID, Grid_GridSize = [],
      Grid_BlocksCount = 0, Grid_Mass = 0, Grid_Position = \<lparr>X = x, Y = 0, Z = 0\<rparr>,
      Grid_LinearSpeed = 0, Grid_DistanceToPlayer = 0, Grid_OwnerSteamID = 0,
      Grid_OwnerDisplayName = [], Grid_IsPowered = False, Grid_PCU = 0\<rparr>"

definition example_lib :: "real stdlib" where
  "example_lib =
     \<lparr>DecodeString =
        (\<lambda>s. if list_all is_base64_symbol s \<and> length s mod 4 = 0
             then Some (''decoded('' @ s @ '')'') else None),
      EncodeToString = (\<lambda>bs. ''base64('' @ bs @ '')''),
      hmac_sha1 = (\<lambda>k m. ''hmac-sha1('' @ k @ '','' @ m @ '')''),
      Values_Encode = (\<lambda>q. join_pairs (concat (map (\<lambda>kv. map (\<lambda>v. fst kv @ ''='' @ v) (snd kv)) q))),
      json_escape = (\<lambda>s. s),
      NewRequest_refuses =
        (\<lambda>method url.
           if method = [] then Some (http_error ''net/http: invalid method'')
           else if list_ex is_control url
           then Some (http_error ''net/url: invalid control character in URL'')
           else None),
      Unmarshal_Response =
        (\<lambda>body. if body = body_not_found then Inr example_not_found
                else if body = body_meta_only then Inr example_meta
                else Inl (json_error ''unexpected end of JSON input'')),
      Unmarshal_GridListResponse =
        (\<lambda>body. if body = body_not_found
                then Inr \<lparr>Embedded = Some example_not_found, Data = None\<rparr>
                else if body = body_meta_only
                then Inr \<lparr>Embedded = Some example_meta, Data = None\<rparr>
                else if body = body_four_grids
                then Inr \<lparr>Embedded = Some example_meta,
                          Data = Some \<lparr>Grids = [Some (example_grid 101 5), Some (example_grid 102 1),
                                                 Some (example_grid 103 3), Some (example_grid 104 (- 1))]\<rparr>\<rparr>
                else Inl (json_error ''unexpected end of JSON input'')),
      Unmarshal_FloatingObjectListResponse =
        (\<lambda>body. if body = body_not_found
                then Inr \<lparr>Embedded = Some example_not_found, Data = None\<rparr>
                else Inl (json_error ''unexpected end of JSON input'')),
      Unmarshal_ChatMessageListResponse =
        (\<lambda>body. if body = body_not_found
                then Inr \<lparr>Embedded = Some example_not_found, Data = None\<rparr>
                else Inl (json_error ''unexpected end of JSON input''))\<rparr>"


definition example_client :: "int64 \<Rightarrow> VRageRemoteClient" where
  "example_client n =
     \<lparr>BaseURL = ''/vrageremote/v1'', RemoteAddress = ''http://localhost:8080'',
      Key = ''a2V5'', nonce = n\<rparr>"

definition example_world :: "VRageRemoteClient \<Rightarrow> world" where
  "example_world c = \<lparr>clients = (\<lambda>p. c), wire = []\<rparr>"

definition example_io :: "nat \<Rightarrow> string \<Rightarrow> io" where
  \<comment> \<open>a server that answers every request with the given status code and body\<close>
  "example_io status body =
     \<lparr>now = ''Mon, 01 Nov 2021 18:06:40 +0000'',
      Do = (\<lambda>request. Inr \<lparr>StatusCode = status, ResponseBody = Inr body\<rparr>)\<rparr>"



subsection \<open>Goroutines and the request lock\<close>

text \<open>
  The same function seen from several goroutines that share one client. A goroutine is
  outside \<^verbatim>\<open>scanResponse\<close> or at one of its places: building the request with the lock
  held (lines 765 to 786), holding the nonce it has read in \<^verbatim>\<open>nounce\<close> (line 789),
  half way through \<^verbatim>\<open>client.nonce++\<close> with the counter loaded but not yet stored, past
  the increment (line 790), or past the signature (lines 796 to 805) until the deferred
  unlock. An event is one goroutine taking one such step; \<open>fire\<close> gives the
  state after it, or nothing when the goroutine is not at that place or, for
  \<^verbatim>\<open>requestMutex.Lock()\<close>, when the lock is taken. \<open>signed\<close> records the nonces in
  the order in which they are signed. \<open>schedule\<close> runs a list of events.
\<close>

datatype place = Outside | Building | Stamped int64 | Loaded int64 int64 | Counted int64 | Signed

record shared =
  requestMutex :: "nat option"
  counter :: int64
  places :: "nat \<Rightarrow> place"
  signed :: "int64 list"

datatype event =
    Lock nat | Refused nat | ReadNonce nat | LoadCounter nat | StoreCounter nat | BadKey nat |
    Sign nat | Return nat

definition leave :: "shared \<Rightarrow> nat \<Rightarrow> shared" where
  "leave s t = s\<lparr>requestMutex := None, places := (places s)(t := Outside)\<rparr>"

fun fire :: "shared \<Rightarrow> event \<Rightarrow> shared option" where
  "fire s (Lock t) =
     (if requestMutex s = None \<and> places s t = Outside
      then Some (s\<lparr>requestMutex := Some t, places := (places s)(t := Building)\<rparr>) else None)"
| "fire s (Refused t) = (if places s t = Building then Some (leave s t) else None)"
| "fire s (ReadNonce t) =
     (if places s t = Building then Some (s\<lparr>places := (places s)(t := Stamped (counter s))\<rparr>)
      else None)"
| "fire s (LoadCounter t) =
     (case places s t of
        Stamped n \<Rightarrow> Some (s\<lparr>places := (places s)(t := Loaded n (counter s))\<rparr>)
      | _ \<Rightarrow> None)"
| "fire s (StoreCounter t) =
     (case places s t of
        Loaded n v \<Rightarrow> Some (s\<lparr>counter := v + 1, places := (places s)(t := Counted n)\<rparr>)
      | _ \<Rightarrow> None)"
| "fire s (BadKey t) = (case places s t of Counted n \<Rightarrow> Some (leave s t) | _ \<Rightarrow> None)"
| "fire s (Sign t) =
     (case places s t of
        Counted n \<Rightarrow> Some (s\<lparr>signed := signed s @ [n], places := (places s)(t := Signed)\<rparr>)
      | _ \<Rightarrow> None)"
| "fire s (Return t) = (if places s t = Signed then Some (leave s t) else None)"

fun schedule :: "shared \<Rightarrow> event list \<Rightarrow> shared option" where
  "schedule s [] = Some s"
| "schedule s (e # es) = (case fire s e of None \<Rightarrow> None | Some s' \<Rightarrow> schedule s' es)"

definition start :: "int64 \<Rightarrow> shared" where
  "start n0 = \<lparr>requestMutex = None, counter = n0, places = (\<lambda>t. Outside), signed = []\<rparr>"

text \<open>
  The invariant of the schedules: the counter is the start value plus the number of
  increments, the signed nonces are start values plus strictly increasing offsets below
  that number, only the holder of the lock is inside the function, and the nonce a
  goroutine holds is the one the counter had when it was read.
\<close>

definition consistent :: "int64 \<Rightarrow> nat \<Rightarrow> shared \<Rightarrow> bool" where
  "consistent n0 n s \<longleftrightarrow>
     (\<exists>j ks. j \<le> n \<and> counter s = n0 + of_nat j \<and>
        signed s = map (\<lambda>k. n0 + of_nat k) ks \<and> sorted_wrt (<) ks \<and> (\<forall>k\<in>set ks. k < j) \<and>
        (\<forall>t. places s t \<noteq> Outside \<longrightarrow> requestMutex s = Some t) \<and>
        (\<forall>t m. places s t = Stamped m \<longrightarrow> m = n0 + of_nat j) \<and>
        (\<forall>t m v. places s t = Loaded m v \<longrightarrow> m = n0 + of_nat j \<and> v = n0 + of_nat j) \<and>
        (\<forall>t m. places s t = Counted m \<longrightarrow> 0 < j \<and> m = n0 + of_nat (j - 1) \<and> (\<forall>k\<in>set ks. k < j - 1)))"


section \<open>Properties\<close>

subsection \<open>Ticks and timestamps\<close>

lemma timeFromTicks_nonneg:
  "0 \<le> sint ticks \<Longrightarrow>
     timeFromTicks ticks =
       (sint ticks div 10000000 - 62135596800) * 1000000000 + sint ticks mod 10000000"
  by (simp add: timeFromTicks_def time_Unix_def signed_divide_int_def signed_modulo_int_def sgn_if)

lemma timeFromTicks_zero: "timeFromTicks 0 = time_Unix (- 62135596800) 0"
  by (simp add: timeFromTicks_def)

lemma ticksFromTime_half_second: "ticksFromTime 500000000 = 621355968004999936"
  by code_simp

lemma timeFromTicks_half_second: "timeFromTicks 621355968004999936 = 4999936"
  by (simp add: timeFromTicks_nonneg)

lemma timeFromTicks_exact_half_second: "timeFromTicks 621355968005000000 = 5000000"
  by (simp add: timeFromTicks_nonneg)

text \<open>
  Claim C6 says that \<open>timeFromTicks (ticksFromTime t)\<close> is \<open>t\<close> up to one tick of
  100 nanoseconds. The code does not do that. \<open>timeFromTicks\<close> hands the ticks left
  over after the whole seconds to \<^verbatim>\<open>time.Unix\<close> as nanoseconds, although a tick is 100
  of them, and \<open>ticksFromTime\<close> computes in float64, which has 53 bits for a number of
  about \<open>6 * 10^17\<close>. At half a second past the Unix epoch the ticks come out as
  621355968004999936 (64 below the exact count) and the way back gives 4999936
  nanoseconds past the epoch instead of 500000000; the exact count would come back as
  5000000 nanoseconds (\<open>timeFromTicks_exact_half_second\<close>).
\<close>

theorem ticks_round_trip_half_second:
  "timeFromTicks (ticksFromTime 500000000) = 4999936 \<and>
   100 < \<bar>timeFromTicks (ticksFromTime 500000000) - 500000000\<bar>"
  by (simp add: ticksFromTime_half_second timeFromTicks_half_second)

lemma ParseInt_value_cases:
  "ParseInt s = (0, Some ErrSyntax) \<or>
   ParseInt s = (MaxInt64, Some ErrRange) \<or>
   ParseInt s = (MinInt64, Some ErrRange) \<or>
   snd (ParseInt s) = None"
  by (simp add: ParseInt_def Let_def)

lemma ParseInt_first_not_digit:
  assumes "s1 = (if s \<noteq> [] \<and> (hd s = CHR ''+'' \<or> hd s = CHR ''-'') then tl s else s)"
    and "s1 = [] \<or> \<not> (48 \<le> (of_char (hd s1) :: nat) \<and> (of_char (hd s1) :: nat) \<le> 57)"
  shows "ParseInt s = (0, Some ErrSyntax)"
proof (cases "s = []")
  case True
  then show ?thesis by (simp add: ParseInt_def)
next
  case False
  have "snd (ParseUint s1) = Some ErrSyntax"
  proof (cases s1)
    case Nil
    then show ?thesis by (simp add: ParseUint_def)
  next
    case (Cons c cs)
    with assms(2) show ?thesis by (auto simp add: ParseUint_def)
  qed
  with False assms(1) show ?thesis
    by (simp add: ParseInt_def Let_def)
qed

lemma ParseInt_abc: "ParseInt ''abc'' = (0, Some ErrSyntax)"
  by (simp add: ParseInt_def ParseUint_def)

lemma ParseInt_above_range: "ParseInt ''9223372036854775808'' = (MaxInt64, Some ErrRange)"
  by (simp add: ParseInt_def ParseUint_def maxUint64_def)

lemma sint_int64_bounds: "sint MaxInt64 = 2 ^ 63 - 1" "sint MinInt64 = - (2 ^ 63)"
  by (simp_all add: MaxInt64_def MinInt64_def)

lemma timeFromTicks_max: "timeFromTicks MaxInt64 = time_Unix 860201606885 4775807"
  by (simp add: timeFromTicks_nonneg MaxInt64_def time_Unix_def)

text \<open>
  Claim C10, as amended: \<open>GetRealTimestamp\<close> has no error result. When
  \<^verbatim>\<open>strconv.ParseInt\<close> rejects the \<open>Timestamp\<close> with a syntax error (an empty string, a
  bare sign, a byte that is not a digit) the time returned is that of tick 0. When it
  rejects it with a range error (a decimal number outside int64) the time returned is
  that of the clamped value, \<open>MaxInt64\<close> or \<open>MinInt64\<close>, not that of tick 0.
\<close>

theorem GetRealTimestamp_unparseable:
  "(snd (ParseInt (Timestamp message)) = Some ErrSyntax \<longrightarrow>
      GetRealTimestamp message = timeFromTicks 0) \<and>
   (snd (ParseInt (Timestamp message)) = Some ErrRange \<longrightarrow>
      GetRealTimestamp message = timeFromTicks MaxInt64 \<or>
      GetRealTimestamp message = timeFromTicks MinInt64)"
  using ParseInt_value_cases [of "Timestamp message"]
  by (auto simp add: GetRealTimestamp_def)

theorem GetRealTimestamp_unparseable_witness:
  "snd (ParseInt (Timestamp \<lparr>SteamID = 0, DisplayName = [], Content = [], Timestamp = ''abc''\<rparr>))
     = Some ErrSyntax \<and>
   GetRealTimestamp \<lparr>SteamID = 0, DisplayName = [], Content = [], Timestamp = ''abc''\<rparr>
     = timeFromTicks 0 \<and>
   snd (ParseInt (Timestamp \<lparr>SteamID = 0, DisplayName = [], Content = [],
                              Timestamp = ''9223372036854775808''\<rparr>)) = Some ErrRange \<and>
   GetRealTimestamp \<lparr>SteamID = 0, DisplayName = [], Content = [],
                      Timestamp = ''9223372036854775808''\<rparr>
     = timeFromTicks MaxInt64"
  using GetRealTimestamp_unparseable
          [of "\<lparr>SteamID = 0, DisplayName = [], Content = [], Timestamp = ''abc''\<rparr>"]
        GetRealTimestamp_unparseable
          [of "\<lparr>SteamID = 0, DisplayName = [], Content = [], Timestamp = ''9223372036854775808''\<rparr>"]
  by (simp add: ParseInt_abc ParseInt_above_range GetRealTimestamp_def)

text \<open>
  Claim C10 as stated fails for a \<open>Timestamp\<close> that is a decimal number but does not fit
  an int64: \<^verbatim>\<open>ParseInt\<close> reports an error, the error is dropped, and the time is that
  of tick \<open>2^63 - 1\<close>.
\<close>

theorem GetRealTimestamp_range_counterexample:
  "snd (ParseInt ''9223372036854775808'') \<noteq> None \<and>
   GetRealTimestamp \<lparr>SteamID = 0, DisplayName = [], Content = [],
                      Timestamp = ''9223372036854775808''\<rparr> \<noteq> timeFromTicks 0"
  by (simp add: GetRealTimestamp_def ParseInt_above_range timeFromTicks_max timeFromTicks_zero
      time_Unix_def)

subsection \<open>What \<^verbatim>\<open>scanResponse\<close> does\<close>

lemma bodyReader_eq:
  "bodyReader L body = Inr (map_option (\<lambda>v. [CHR 0x22] @ json_escape L v @ [CHR 0x22]) body)"
  by (cases body) (simp_all add: bodyReader_def json_Marshal_def)

lemma scanResponse_refused:
  assumes "NewRequest_refuses L method (RemoteAddress (clients w p) @ methodURL L (clients w p) resource query) = Some err"
  shows "scanResponse L env w p method resource query body unmarshal = (w, Inl err)"
  using assms by (simp add: scanResponse_def bodyReader_eq NewRequest_def)

lemma scanResponse_bad_key:
  assumes "NewRequest_refuses L method (RemoteAddress (clients w p) @ methodURL L (clients w p) resource query) = None"
    and "DecodeString L (Key (clients w p)) = None"
  shows "scanResponse L env w p method resource query body unmarshal =
           (w\<lparr>clients := (clients w)(p := (clients w p)\<lparr>nonce := nonce (clients w p) + 1\<rparr>)\<rparr>,
            Inl (errors_New ''error decoding client key''))"
  using assms by (simp add: scanResponse_def bodyReader_eq NewRequest_def Let_def)

lemma scanResponse_sent:
  assumes "NewRequest_refuses L method (RemoteAddress (clients w p) @ methodURL L (clients w p) resource query) = None"
    and "DecodeString L (Key (clients w p)) = Some keyDecoded"
  shows "scanResponse L env w p method resource query body unmarshal =
           (w\<lparr>clients := (clients w)(p := (clients w p)\<lparr>nonce := nonce (clients w p) + 1\<rparr>),
              wire := wire w @ [signed_request L env (clients w p) method resource query body keyDecoded]\<rparr>,
            receive env (signed_request L env (clients w p) method resource query body keyDecoded) unmarshal)"
  using assms
  by (simp add: scanResponse_def bodyReader_eq NewRequest_def Let_def signed_request_def
      encodedHash_def add_headers_def Header_Add_def)

lemma scanResponse_wire:
  assumes "wire (fst (scanResponse L env w p method resource query body unmarshal)) = wire w @ [request]"
  shows "\<exists>keyDecoded.
           NewRequest_refuses L method
             (RemoteAddress (clients w p) @ methodURL L (clients w p) resource query) = None \<and>
           DecodeString L (Key (clients w p)) = Some keyDecoded \<and>
           request = signed_request L env (clients w p) method resource query body keyDecoded"
proof (cases "NewRequest_refuses L method
                (RemoteAddress (clients w p) @ methodURL L (clients w p) resource query)")
  case (Some err)
  with assms show ?thesis by (simp add: scanResponse_refused)
next
  case None
  show ?thesis
  proof (cases "DecodeString L (Key (clients w p))")
    case dn: None
    with None assms show ?thesis by (simp add: scanResponse_bad_key)
  next
    case (Some keyDecoded)
    with None assms show ?thesis by (simp add: scanResponse_sent)
  qed
qed

lemma methodURL_eq:
  "methodURL L c resource query =
     BaseURL c @ ''/'' @ resource @
     (case query of None \<Rightarrow> [] | Some q \<Rightarrow> if q = [] then [] else ''?'' @ Values_Encode L q)"
  by (cases query) (simp_all add: methodURL_def)

lemma header_Authorization:
  "header_value (signed_request L env c method resource query body keyDecoded) ''Authorization'' =
     Some (Sprint (nonce c) @ '':'' @
           EncodeToString L
             (hmac_sha1 L keyDecoded
                (methodURL L c resource query @ CRLF @ Sprint (nonce c) @ CRLF @ now env @ CRLF)))"
  by (simp add: header_value_def signed_request_def)

lemma header_Date:
  "header_value (signed_request L env c method resource query body keyDecoded) ''Date'' = Some (now env)"
  by (simp add: header_value_def signed_request_def)

lemma header_Content_Type:
  "header_value (signed_request L env c method resource query body keyDecoded) ''Content-Type'' =
     (if body = None then None else Some ''application/json'')"
  by (simp add: header_value_def signed_request_def)

text \<open>Facts for running the examples.\<close>

lemmas example_defs =
  example_lib_def example_world_def example_client_def example_io_def is_base64_symbol_def
  is_control_def methodURL_def signed_request_def header_value_def

lemmas Sprint_eval = Sprint_def decimal_def digits.simps digit_char_def

lemma bodies_distinct [simp]:
  "body_meta_only \<noteq> body_not_found" "body_four_grids \<noteq> body_not_found"
  "body_four_grids \<noteq> body_meta_only"
  by (simp_all add: body_meta_only_def body_not_found_def body_four_grids_def)

lemma example_scan_server:
  "scanResponse example_lib (example_io 200 body_meta_only)
     (example_world (example_client 1635790000123456789)) 0 ''GET'' ''server'' None None
     (Unmarshal_Response example_lib) =
   (\<lparr>clients = (\<lambda>p. example_client 1635790000123456789)
                 (0 := example_client 1635790000123456790),
      wire =
        [\<lparr>Method = ''GET'', URL = ''http://localhost:8080/vrageremote/v1/server'',
          Header =
            [(''Authorization'',
              ''1635790000123456789:base64(hmac-sha1(decoded(a2V5),/vrageremote/v1/server'' @ CRLF @
              ''1635790000123456789'' @ CRLF @ ''Mon, 01 Nov 2021 18:06:40 +0000'' @ CRLF @ ''))''),
             (''Date'', ''Mon, 01 Nov 2021 18:06:40 +0000'')],
          Body = None\<rparr>]\<rparr>,
    Inr example_meta)"
  by (simp add: scanResponse_sent [where keyDecoded = "''decoded(a2V5)''"] example_defs Sprint_eval
      receive_def)

text \<open>
  Claim C1: every request that \<open>scanResponse\<close> hands to the transport carries an
  \<^verbatim>\<open>Authorization\<close> header of the form \<open>nonce:digest\<close>, where the nonce is the decimal
  form of the counter, the digest is the base64 encoding of the HMAC-SHA1 of
  \<open>resourceURL + CRLF + nonce + CRLF + date + CRLF\<close> under the key obtained by
  base64-decoding the configured key, the date is the one sent in the \<^verbatim>\<open>Date\<close> header, and
  the resource URL is the base path, a slash, the resource and the query string if there is
  one, without the remote address that the request URL starts with.
\<close>

theorem authorization_digest:
  assumes "wire (fst (scanResponse L env w p method resource query body unmarshal)) = wire w @ [request]"
  shows "\<exists>keyDecoded.
           DecodeString L (Key (clients w p)) = Some keyDecoded \<and>
           header_value request ''Authorization'' =
             Some (Sprint (nonce (clients w p)) @ '':'' @
                   EncodeToString L
                     (hmac_sha1 L keyDecoded
                        (methodURL L (clients w p) resource query @ CRLF @
                         Sprint (nonce (clients w p)) @ CRLF @ now env @ CRLF))) \<and>
           header_value request ''Date'' = Some (now env) \<and>
           URL request = RemoteAddress (clients w p) @ methodURL L (clients w p) resource query \<and>
           methodURL L (clients w p) resource query =
             BaseURL (clients w p) @ ''/'' @ resource @
             (case query of None \<Rightarrow> [] | Some q \<Rightarrow> if q = [] then [] else ''?'' @ Values_Encode L q)"
proof -
  from scanResponse_wire [OF assms] obtain keyDecoded where
    k: "DecodeString L (Key (clients w p)) = Some keyDecoded" and
    r: "request = signed_request L env (clients w p) method resource query body keyDecoded"
    by blast
  have "URL request = RemoteAddress (clients w p) @ methodURL L (clients w p) resource query"
    using r by (simp add: signed_request_def)
  with k r show ?thesis
    using methodURL_eq [of L "clients w p" resource query]
    by (simp only: header_Authorization header_Date) blast
qed


theorem authorization_digest_witness:
  "wire (fst (scanResponse example_lib (example_io 200 body_meta_only)
                (example_world (example_client 1635790000123456789)) 0 ''GET'' ''server'' None None
                (Unmarshal_Response example_lib))) =
     wire (example_world (example_client 1635790000123456789)) @
     [\<lparr>Method = ''GET'', URL = ''http://localhost:8080/vrageremote/v1/server'',
       Header =
         [(''Authorization'',
           ''1635790000123456789:base64(hmac-sha1(decoded(a2V5),/vrageremote/v1/server'' @ CRLF @
           ''1635790000123456789'' @ CRLF @ ''Mon, 01 Nov 2021 18:06:40 +0000'' @ CRLF @ ''))''),
          (''Date'', ''Mon, 01 Nov 2021 18:06:40 +0000'')],
       Body = None\<rparr>] \<and>
   DecodeString example_lib (Key (example_client 1635790000123456789)) = Some ''decoded(a2V5)'' \<and>
   Sprint (nonce (example_client 1635790000123456789)) = ''1635790000123456789''"
proof -
  let ?r = "\<lparr>Method = ''GET'', URL = ''http://localhost:8080/vrageremote/v1/server'',
       Header =
         [(''Authorization'',
           ''1635790000123456789:base64(hmac-sha1(decoded(a2V5),/vrageremote/v1/server'' @ CRLF @
           ''1635790000123456789'' @ CRLF @ ''Mon, 01 Nov 2021 18:06:40 +0000'' @ CRLF @ ''))''),
          (''Date'', ''Mon, 01 Nov 2021 18:06:40 +0000'')],
       Body = None\<rparr>"
  have sent:
    "wire (fst (scanResponse example_lib (example_io 200 body_meta_only)
                  (example_world (example_client 1635790000123456789)) 0 ''GET'' ''server'' None None
                  (Unmarshal_Response example_lib))) =
       wire (example_world (example_client 1635790000123456789)) @ [?r]"
    by (simp add: example_scan_server) (simp add: example_world_def)
  from authorization_digest [OF sent] sent show ?thesis
    by (simp add: example_defs Sprint_eval)
qed

lemma digits_set: "set (digits n) \<subseteq> set ''0123456789''"
proof (induction n rule: digits.induct)
  case (1 n)
  have d: "digit_char k \<in> set ''0123456789''" if "k < 10" for k
  proof -
    from that have "k \<in> {0, 1, 2, 3, 4, 5, 6, 7, 8, 9}" by auto
    then show ?thesis by (auto simp add: digit_char_def)
  qed
  show ?case
  proof (cases "n < 10")
    case True
    then show ?thesis using d [of n] by (subst digits.simps) simp
  next
    case False
    then show ?thesis using 1 d [of "n mod 10"] by (subst digits.simps) auto
  qed
qed

lemma Sprint_no_question_mark: "CHR ''?'' \<notin> set (Sprint v)"
  using digits_set by (auto simp add: Sprint_def decimal_def)


lemma resources_without_question_mark:
  "CHR ''?'' \<notin> set ''session''" "CHR ''?'' \<notin> set ''server''"
  "CHR ''?'' \<notin> set ''session/chat''" "CHR ''?'' \<notin> set ''session/grids''"
  "CHR ''?'' \<notin> set ''session/floatingObjects''"
  "CHR ''?'' \<notin> set (''session/characters/'' @ Sprint v)"
  "CHR ''?'' \<notin> set (''session/asteroids/'' @ Sprint v)"
  "CHR ''?'' \<notin> set (''session/floatingObjects/'' @ Sprint v)"
  "CHR ''?'' \<notin> set (''session/grids/'' @ Sprint v)"
  "CHR ''?'' \<notin> set (''session/poweredGrids/'' @ Sprint v)"
  "CHR ''?'' \<notin> set (''session/planets/'' @ Sprint v)"
  "CHR ''?'' \<notin> set (''admin/promotedPlayers/'' @ Sprint v)"
  "CHR ''?'' \<notin> set (''admin/bannedPlayers/'' @ Sprint v)"
  "CHR ''?'' \<notin> set (''admin/kickedPlayers/'' @ Sprint v)"
  using Sprint_no_question_mark [of v] by simp_all

lemma constructor_base_path:
  "BaseURL (NewVRageRemoteClient remoteAddress key t) = ''/vrageremote/v1''"
  "CHR ''?'' \<notin> set (BaseURL (NewVRageRemoteClient remoteAddress key t))"
  by (simp_all add: NewVRageRemoteClient_def)

text \<open>
  Claim C8: the URL of a request is the remote address followed by the resource URL. With
  a nil or empty query the resource URL is exactly base path, slash, resource: nothing is
  appended, so it has no question mark when the base path and the resource have none (the
  resources the package passes are literals and decimal numbers). With a non-empty query it
  is that path, a question mark and the encoded query.
\<close>

theorem request_url_query:
  assumes "wire (fst (scanResponse L env w p method resource query body unmarshal)) = wire w @ [request]"
  shows "URL request = RemoteAddress (clients w p) @ methodURL L (clients w p) resource query \<and>
         (query = None \<or> query = Some [] \<longrightarrow>
            methodURL L (clients w p) resource query = BaseURL (clients w p) @ ''/'' @ resource \<and>
            (CHR ''?'' \<notin> set (BaseURL (clients w p)) \<and> CHR ''?'' \<notin> set resource \<longrightarrow>
               CHR ''?'' \<notin> set (methodURL L (clients w p) resource query))) \<and>
         (\<forall>q. query = Some q \<and> q \<noteq> [] \<longrightarrow>
            methodURL L (clients w p) resource query =
              BaseURL (clients w p) @ ''/'' @ resource @ ''?'' @ Values_Encode L q)"
proof -
  from scanResponse_wire [OF assms] obtain keyDecoded where
    "request = signed_request L env (clients w p) method resource query body keyDecoded"
    by blast
  then have "URL request = RemoteAddress (clients w p) @ methodURL L (clients w p) resource query"
    by (simp add: signed_request_def)
  then show ?thesis
    by (auto simp add: methodURL_eq)
qed

lemma example_scan_save_as:
  "wire (fst (scanResponse example_lib (example_io 200 body_meta_only)
                (example_world (example_client 7)) 0 ''PATCH'' ''session''
                (Some [(''savename'', [''backup''])]) None (Unmarshal_Response example_lib))) =
   [\<lparr>Method = ''PATCH'', URL = ''http://localhost:8080/vrageremote/v1/session?savename=backup'',
     Header =
       [(''Authorization'',
         ''7:base64(hmac-sha1(decoded(a2V5),/vrageremote/v1/session?savename=backup'' @ CRLF @
         ''7'' @ CRLF @ ''Mon, 01 Nov 2021 18:06:40 +0000'' @ CRLF @ ''))''),
        (''Date'', ''Mon, 01 Nov 2021 18:06:40 +0000'')],
     Body = None\<rparr>]"
  by (simp add: scanResponse_sent [where keyDecoded = "''decoded(a2V5)''"] example_defs Sprint_eval)

lemma example_scan_save:
  "wire (fst (scanResponse example_lib (example_io 200 body_meta_only)
                (example_world (example_client 7)) 0 ''PATCH'' ''session''
                (Some []) None (Unmarshal_Response example_lib))) =
   [\<lparr>Method = ''PATCH'', URL = ''http://localhost:8080/vrageremote/v1/session'',
     Header =
       [(''Authorization'',
         ''7:base64(hmac-sha1(decoded(a2V5),/vrageremote/v1/session'' @ CRLF @
         ''7'' @ CRLF @ ''Mon, 01 Nov 2021 18:06:40 +0000'' @ CRLF @ ''))''),
        (''Date'', ''Mon, 01 Nov 2021 18:06:40 +0000'')],
     Body = None\<rparr>]"
  by (simp add: scanResponse_sent [where keyDecoded = "''decoded(a2V5)''"] example_defs Sprint_eval)

theorem request_url_query_witness:
  "URL (last (wire (fst (scanResponse example_lib (example_io 200 body_meta_only)
                (example_world (example_client 7)) 0 ''PATCH'' ''session''
                (Some []) None (Unmarshal_Response example_lib))))) =
     ''http://localhost:8080/vrageremote/v1/session'' \<and>
   CHR ''?'' \<notin> set (methodURL example_lib (example_client 7) ''session'' (Some [])) \<and>
   URL (last (wire (fst (scanResponse example_lib (example_io 200 body_meta_only)
                (example_world (example_client 7)) 0 ''PATCH'' ''session''
                (Some [(''savename'', [''backup''])]) None (Unmarshal_Response example_lib))))) =
     ''http://localhost:8080/vrageremote/v1/session?savename=backup''"
proof -
  let ?w = "example_world (example_client 7)"
  let ?s1 = "scanResponse example_lib (example_io 200 body_meta_only) ?w 0 ''PATCH'' ''session''
               (Some []) None (Unmarshal_Response example_lib)"
  let ?s2 = "scanResponse example_lib (example_io 200 body_meta_only) ?w 0 ''PATCH'' ''session''
               (Some [(''savename'', [''backup''])]) None (Unmarshal_Response example_lib)"
  have h1: "wire (fst ?s1) = wire ?w @ [last (wire (fst ?s1))]"
    by (simp add: example_scan_save) (simp add: example_world_def)
  have h2: "wire (fst ?s2) = wire ?w @ [last (wire (fst ?s2))]"
    by (simp add: example_scan_save_as) (simp add: example_world_def)
  from request_url_query [OF h1] request_url_query [OF h2] show ?thesis
    by (simp add: example_defs)
qed

text \<open>
  Claim C9, as amended: a call of \<open>scanResponse\<close> that gets as far as building the
  request leaves the counter one higher, whether or not it then fails; in particular, with
  a key that is not valid base64 it returns the error \<^verbatim>\<open>error decoding client key\<close>, sends
  nothing, and the counter has advanced. A call that \<^verbatim>\<open>http.NewRequest\<close> refuses returns
  before the counter is touched and leaves it as it was.
\<close>

theorem scanResponse_nonce:
  "nonce (clients (fst (scanResponse L env w p method resource query body unmarshal)) p) =
     (if NewRequest_refuses L method
           (RemoteAddress (clients w p) @ methodURL L (clients w p) resource query) = None
      then nonce (clients w p) + 1 else nonce (clients w p)) \<and>
   (NewRequest_refuses L method
      (RemoteAddress (clients w p) @ methodURL L (clients w p) resource query) = None \<and>
    DecodeString L (Key (clients w p)) = None \<longrightarrow>
      snd (scanResponse L env w p method resource query body unmarshal) =
        Inl (errors_New ''error decoding client key'') \<and>
      wire (fst (scanResponse L env w p method resource query body unmarshal)) = wire w)"
proof (cases "NewRequest_refuses L method
                (RemoteAddress (clients w p) @ methodURL L (clients w p) resource query)")
  case (Some err)
  then show ?thesis by (simp add: scanResponse_refused)
next
  case None
  show ?thesis
  proof (cases "DecodeString L (Key (clients w p))")
    case dn: None
    with None show ?thesis by (simp add: scanResponse_bad_key)
  next
    case (Some keyDecoded)
    with None show ?thesis by (simp add: scanResponse_sent)
  qed
qed

theorem scanResponse_nonce_witness:
  "NewRequest_refuses example_lib ''GET''
     (RemoteAddress ((example_client 7)\<lparr>Key := ''not base64!''\<rparr>) @
      methodURL example_lib ((example_client 7)\<lparr>Key := ''not base64!''\<rparr>) ''server'' None) = None \<and>
   DecodeString example_lib (Key ((example_client 7)\<lparr>Key := ''not base64!''\<rparr>)) = None \<and>
   snd (scanResponse example_lib (example_io 200 body_meta_only)
          (example_world ((example_client 7)\<lparr>Key := ''not base64!''\<rparr>)) 0 ''GET'' ''server'' None None
          (Unmarshal_Response example_lib)) = Inl (errors_New ''error decoding client key'') \<and>
   wire (fst (scanResponse example_lib (example_io 200 body_meta_only)
          (example_world ((example_client 7)\<lparr>Key := ''not base64!''\<rparr>)) 0 ''GET'' ''server'' None None
          (Unmarshal_Response example_lib))) = [] \<and>
   nonce (clients (fst (scanResponse example_lib (example_io 200 body_meta_only)
          (example_world ((example_client 7)\<lparr>Key := ''not base64!''\<rparr>)) 0 ''GET'' ''server'' None None
          (Unmarshal_Response example_lib))) 0) = 8"
  using scanResponse_nonce [of example_lib "example_io 200 body_meta_only"
      "example_world ((example_client 7)\<lparr>Key := ''not base64!''\<rparr>)" 0 "''GET''" "''server''" None None
      "Unmarshal_Response example_lib"]
  by (simp add: example_defs)

text \<open>
  Claim C9 as stated (every call advances the counter, also a failing one) fails for a
  remote address that ends in a line feed: \<^verbatim>\<open>http.NewRequest\<close> refuses the URL, the call
  returns its error, and the counter is still 7.
\<close>

theorem scanResponse_nonce_counterexample:
  "snd (scanResponse example_lib (example_io 200 body_meta_only)
          (example_world ((example_client 7)\<lparr>RemoteAddress := ''http://localhost:8080'' @ [CHR 0x0A]\<rparr>))
          0 ''GET'' ''server'' None None (Unmarshal_Response example_lib)) =
     Inl (http_error ''net/url: invalid control character in URL'') \<and>
   nonce (clients (fst (scanResponse example_lib (example_io 200 body_meta_only)
          (example_world ((example_client 7)\<lparr>RemoteAddress := ''http://localhost:8080'' @ [CHR 0x0A]\<rparr>))
          0 ''GET'' ''server'' None None (Unmarshal_Response example_lib))) 0) \<noteq>
     nonce (clients
          (example_world ((example_client 7)\<lparr>RemoteAddress := ''http://localhost:8080'' @ [CHR 0x0A]\<rparr>))
          0) + 1"
  by (simp add: scanResponse_def bodyReader_eq NewRequest_def example_defs)

lemma envelope_error_fst [simp]: "fst (envelope_error r) = fst r"
  by (simp add: envelope_error_def split: sum.split option.split)

text \<open>
  Claim C7, as amended: \<open>SendChat\<close> posts to \<^verbatim>\<open>session/chat\<close> the JSON encoding of the
  content, that is the content with JSON escaping between two double quotes, with the
  header \<^verbatim>\<open>Content-Type: application/json\<close>.
\<close>

theorem SendChat_body:
  assumes "wire (fst (SendChat L env w p content)) = wire w @ [request]"
  shows "Method request = ''POST'' \<and>
         URL request = RemoteAddress (clients w p) @ BaseURL (clients w p) @ ''/session/chat'' \<and>
         Body request = Some ([CHR 0x22] @ json_escape L content @ [CHR 0x22]) \<and>
         header_value request ''Content-Type'' = Some ''application/json''"
proof -
  from assms have
    "wire (fst (scanResponse L env w p ''POST'' ''session/chat'' None (Some content)
                  (Unmarshal_Response L))) = wire w @ [request]"
    by (simp add: SendChat_def)
  from scanResponse_wire [OF this] obtain keyDecoded where
    r: "request = signed_request L env (clients w p) ''POST'' ''session/chat'' None (Some content)
                    keyDecoded"
    by blast
  show ?thesis
    unfolding r header_Content_Type
    by (simp add: signed_request_def methodURL_def)
qed

lemma example_SendChat:
  "wire (fst (SendChat example_lib (example_io 200 body_meta_only)
                (example_world (example_client 7)) 0 ''hello'')) =
   [\<lparr>Method = ''POST'', URL = ''http://localhost:8080/vrageremote/v1/session/chat'',
     Header =
       [(''Content-Type'', ''application/json''),
        (''Authorization'',
         ''7:base64(hmac-sha1(decoded(a2V5),/vrageremote/v1/session/chat'' @ CRLF @
         ''7'' @ CRLF @ ''Mon, 01 Nov 2021 18:06:40 +0000'' @ CRLF @ ''))''),
        (''Date'', ''Mon, 01 Nov 2021 18:06:40 +0000'')],
     Body = Some ([CHR 0x22] @ ''hello'' @ [CHR 0x22])\<rparr>]"
  by (simp add: SendChat_def scanResponse_sent [where keyDecoded = "''decoded(a2V5)''"]
      example_defs Sprint_eval)

theorem SendChat_body_witness:
  "wire (fst (SendChat example_lib (example_io 200 body_meta_only)
                (example_world (example_client 7)) 0 ''hello'')) =
     wire (example_world (example_client 7)) @
     [last (wire (fst (SendChat example_lib (example_io 200 body_meta_only)
                         (example_world (example_client 7)) 0 ''hello'')))] \<and>
   Body (last (wire (fst (SendChat example_lib (example_io 200 body_meta_only)
                         (example_world (example_client 7)) 0 ''hello'')))) =
     Some ([CHR 0x22] @ ''hello'' @ [CHR 0x22])"
proof -
  let ?w = "example_world (example_client 7)"
  let ?s = "SendChat example_lib (example_io 200 body_meta_only) ?w 0 ''hello''"
  have h: "wire (fst ?s) = wire ?w @ [last (wire (fst ?s))]"
    by (simp add: example_SendChat) (simp add: example_world_def)
  from SendChat_body [OF h] h show ?thesis
    by (simp add: example_lib_def)
qed

text \<open>
  Claim C7 as stated (the bytes sent are the bytes of the content) fails for the content
  \<open>hello\<close>: the body sent is \<open>hello\<close> in double quotes, seven bytes.
\<close>

theorem SendChat_raw_body_counterexample:
  "map Body (wire (fst (SendChat example_lib (example_io 200 body_meta_only)
                          (example_world (example_client 7)) 0 ''hello''))) =
     [Some ([CHR 0x22] @ ''hello'' @ [CHR 0x22])] \<and>
   map Body (wire (fst (SendChat example_lib (example_io 200 body_meta_only)
                          (example_world (example_client 7)) 0 ''hello''))) \<noteq> [Some ''hello'']"
  by (simp add: example_SendChat)

subsection \<open>The envelope\<close>

lemma receive_ignores_status:
  "receive (env\<lparr>Do := \<lambda>request. map_sum id (\<lambda>response. response\<lparr>StatusCode := k\<rparr>) (Do env request)\<rparr>)
     request unmarshal = receive env request unmarshal"
  by (simp add: receive_def split: sum.split)

lemma envelope_error_Some:
  assumes "snd r = Inr response" and "Error response = Some e"
  shows "envelope_error r = (fst r, Some (errors_New (Message e)))"
  using assms by (simp add: envelope_error_def)

lemma envelope_error_None:
  assumes "snd r = Inr response" and "Error response = None"
  shows "envelope_error r = (fst r, None)"
  using assms by (simp add: envelope_error_def)

lemma GetGrids_error:
  assumes "snd (scanResponse L env w p ''GET'' ''session/grids'' None None
                  (Unmarshal_GridListResponse L)) = Inr response"
    and "Embedded response = Some envelope" and "Error envelope = Some e"
  shows "snd (GetGrids L env w p) = Returns (None, Some (errors_New (Message e)))"
  using assms by (simp add: GetGrids_def Let_def)

lemma GetGrids_panics_without_envelope:
  assumes "snd (scanResponse L env w p ''GET'' ''session/grids'' None None
                  (Unmarshal_GridListResponse L)) = Inr response"
    and "Embedded response = None"
  shows "snd (GetGrids L env w p) = Panics"
  using assms by (simp add: GetGrids_def Let_def)

lemma GetFloatingObjects_error:
  assumes "snd (scanResponse L env w p ''GET'' ''session/floatingObjects'' None None
                  (Unmarshal_FloatingObjectListResponse L)) = Inr response"
    and "Embedded response = Some envelope" and "Error envelope = Some e"
  shows "snd (GetFloatingObjects L env w p) = Returns (None, Some (errors_New (Message e)))"
  using assms by (simp add: GetFloatingObjects_def Let_def)

lemma GetChat_error:
  assumes "snd (scanResponse L env w p ''GET'' ''session/chat'' None None
                  (Unmarshal_ChatMessageListResponse L)) = Inr response"
    and "Embedded response = Some envelope" and "Error envelope = Some e"
  shows "snd (GetChat L env w p) = Returns (None, Some (errors_New (Message e)))"
  using assms by (simp add: GetChat_def Let_def)

lemma GetChat_returns:
  assumes "snd (scanResponse L env w p ''GET'' ''session/chat'' None None
                  (Unmarshal_ChatMessageListResponse L)) = Inr response"
    and "Embedded response = Some envelope" and "Error envelope = None"
  shows "snd (GetChat L env w p) = Returns (Some response, None)"
  using assms by (simp add: GetChat_def Let_def)

lemma Error_text_of_envelope: "Error_text (errors_New (Message e)) = Message e"
  by simp

lemma example_scan_grids:
  "snd (scanResponse example_lib (example_io 200 body) (example_world (example_client 7)) 0
          ''GET'' ''session/grids'' None None (Unmarshal_GridListResponse example_lib)) =
   Unmarshal_GridListResponse example_lib body"
  by (simp add: scanResponse_sent [where keyDecoded = "''decoded(a2V5)''"] example_defs receive_def)

text \<open>
  Claim C3 says that an operation succeeds and returns the decoded data whenever the
  error of the envelope is null. \<open>GetGrids\<close> does not: when the decoded struct has a
  null error and a nil \<^verbatim>\<open>Data\<close>, as for the response body
  \<^verbatim>\<open>{"meta":{"apiVersion":"1.0","queryTime":0}}\<close>, the loop over
  \<^verbatim>\<open>response.Data.Grids\<close> dereferences the nil pointer and the call panics. (The first
  half of the claim holds, see \<open>envelope_error_Some\<close> and \<open>GetGrids_error\<close>, and the
  status code plays no part, see \<open>receive_ignores_status\<close>.)
\<close>

theorem GetGrids_panics_without_data:
  assumes "snd (scanResponse L env w p ''GET'' ''session/grids'' None None
                  (Unmarshal_GridListResponse L)) = Inr response"
    and "Embedded response = Some envelope" and "Error envelope = None" and "Data response = None"
  shows "snd (GetGrids L env w p) = Panics"
  using assms by (simp add: GetGrids_def Let_def)

theorem GetGrids_panics_without_data_witness:
  "snd (scanResponse example_lib (example_io 200 body_meta_only) (example_world (example_client 7)) 0
          ''GET'' ''session/grids'' None None (Unmarshal_GridListResponse example_lib)) =
     Inr \<lparr>Embedded = Some \<lparr>Error = None, Meta = Some \<lparr>ApiVersion = ''1.0'', QueryTime = 0\<rparr>\<rparr>,
          Data = None\<rparr> \<and>
   snd (GetGrids example_lib (example_io 200 body_meta_only) (example_world (example_client 7)) 0) =
     Panics"
proof -
  let ?envelope = "\<lparr>Error = None, Meta = Some \<lparr>ApiVersion = ''1.0'', QueryTime = 0::real\<rparr>\<rparr>"
  let ?response = "\<lparr>Embedded = Some ?envelope, Data = None :: real VRageRemoteGridList option\<rparr>"
  have scan:
    "snd (scanResponse example_lib (example_io 200 body_meta_only) (example_world (example_client 7)) 0
            ''GET'' ''session/grids'' None None (Unmarshal_GridListResponse example_lib)) =
       Inr ?response"
    by (simp add: example_scan_grids) (simp add: example_lib_def example_meta_def)
  have "Embedded ?response = Some ?envelope" "Error ?envelope = None" "Data ?response = None"
    by simp_all
  from GetGrids_panics_without_data [OF scan this] scan show ?thesis
    by simp
qed

subsection \<open>The stable sort\<close>

lemma mset_sift: "mset (sift lt x ys) = add_mset x (mset ys)"
  by (induction ys) simp_all

lemma set_sift: "set (sift lt x ys) = insert x (set ys)"
  by (induction ys) auto

lemma sift_keeps_descending:
  fixes key :: "'a \<Rightarrow> 'k::linorder"
  assumes "sorted_wrt (\<lambda>a b. key b \<le> key a) ys"
  shows "sorted_wrt (\<lambda>a b. key b \<le> key a) (sift (\<lambda>a b. key a < key b) x ys)"
  using assms
proof (induction ys)
  case Nil
  then show ?case by simp
next
  case (Cons y ys)
  show ?case
  proof (cases "key x < key y")
    case True
    with Cons show ?thesis by (auto simp add: set_sift)
  next
    case False
    with Cons.prems show ?thesis by (auto intro: order_trans)
  qed
qed

lemma filter_sift:
  fixes key :: "'a \<Rightarrow> 'k::linorder"
  shows "filter (\<lambda>g. key g = v) (sift (\<lambda>a b. key a < key b) x ys) =
         filter (\<lambda>g. key g = v) (x # ys)"
  by (induction ys) auto

lemma mset_front: "mset (foldl (\<lambda>front x. sift lt x front) acc xs) = mset xs + mset acc"
  by (induction xs arbitrary: acc) (simp_all add: mset_sift)

lemma front_descending:
  fixes key :: "'a \<Rightarrow> 'k::linorder"
  assumes "sorted_wrt (\<lambda>a b. key b \<le> key a) acc"
  shows "sorted_wrt (\<lambda>a b. key b \<le> key a)
           (foldl (\<lambda>front x. sift (\<lambda>a b. key a < key b) x front) acc xs)"
  using assms by (induction xs arbitrary: acc) (simp_all add: sift_keeps_descending)

lemma filter_front:
  fixes key :: "'a \<Rightarrow> 'k::linorder"
  shows "filter (\<lambda>g. key g = v) (foldl (\<lambda>front x. sift (\<lambda>a b. key a < key b) x front) acc xs) =
         filter (\<lambda>g. key g = v) (rev xs @ acc)"
proof (induction xs arbitrary: acc)
  case Nil
  show ?case by simp
next
  case (Cons x xs)
  have "filter (\<lambda>g. key g = v) (foldl (\<lambda>front x. sift (\<lambda>a b. key a < key b) x front) acc (x # xs)) =
        filter (\<lambda>g. key g = v) (rev xs) @ filter (\<lambda>g. key g = v) (sift (\<lambda>a b. key a < key b) x acc)"
    using Cons.IH [of "sift (\<lambda>a b. key a < key b) x acc"] by simp
  also have "\<dots> = filter (\<lambda>g. key g = v) (rev xs) @ filter (\<lambda>g. key g = v) (x # acc)"
    by (simp only: filter_sift)
  finally show ?case by simp
qed

lemma mset_SliceStable: "mset (SliceStable lt xs) = mset xs"
  by (simp add: SliceStable_def mset_front)

lemma sorted_SliceStable:
  fixes key :: "'a \<Rightarrow> 'k::linorder"
  shows "sorted (map key (SliceStable (\<lambda>a b. key a < key b) xs))"
proof -
  have "sorted_wrt (\<lambda>a b. key b \<le> key a)
          (foldl (\<lambda>front x. sift (\<lambda>a b. key a < key b) x front) [] xs)"
    by (rule front_descending) simp
  then have "sorted_wrt (\<lambda>a b. key a \<le> key b) (SliceStable (\<lambda>a b. key a < key b) xs)"
    by (simp add: SliceStable_def sorted_wrt_rev)
  then show ?thesis by (simp add: sorted_wrt_map)
qed

lemma stable_SliceStable:
  fixes key :: "'a \<Rightarrow> 'k::linorder"
  shows "filter (\<lambda>g. key g = v) (SliceStable (\<lambda>a b. key a < key b) xs) = filter (\<lambda>g. key g = v) xs"
  by (simp add: SliceStable_def filter_front flip: rev_filter)

lemma SliceStable_is_sort_key:
  fixes key :: "'a \<Rightarrow> 'k::linorder"
  shows "SliceStable (\<lambda>a b. key a < key b) xs = sort_key key xs"
proof (rule sym, rule properties_for_sort_key)
  show "mset (SliceStable (\<lambda>a b. key a < key b) xs) = mset xs" by (rule mset_SliceStable)
  show "sorted (map key (SliceStable (\<lambda>a b. key a < key b) xs))" by (rule sorted_SliceStable)
  fix k
  show "filter (\<lambda>x. key k = key x) (SliceStable (\<lambda>a b. key a < key b) xs) =
        filter (\<lambda>x. key k = key x) xs"
    using stable_SliceStable [of key "key k" xs] by (simp add: eq_commute)
qed

subsection \<open>Grids and their back-reference\<close>

lemma wire_grids_Some:
  assumes "wire_grids p gs = Some gs'"
  shows "\<exists>plain. gs = map Some plain \<and> gs' = map (\<lambda>g. Some (g\<lparr>Grid_client := Some p\<rparr>)) plain"
  using assms
proof (induction p gs arbitrary: gs' rule: wire_grids.induct)
  case (1 p)
  then show ?case by simp
next
  case (2 p gs)
  then show ?case by simp
next
  case (3 p grid gs)
  from "3.prems" obtain rest where
    rest: "wire_grids p gs = Some rest" and gs': "gs' = Some (grid\<lparr>Grid_client := Some p\<rparr>) # rest"
    by (auto split: option.splits)
  from "3.IH" [OF rest] obtain plain where
    plain: "gs = map Some plain" "rest = map (\<lambda>g. Some (g\<lparr>Grid_client := Some p\<rparr>)) plain"
    by blast
  show ?case
    by (rule exI [of _ "grid # plain"]) (simp add: gs' plain)
qed

lemma wire_grids_map_Some:
  "wire_grids p (map Some plain) = Some (map (\<lambda>g. Some (g\<lparr>Grid_client := Some p\<rparr>)) plain)"
  by (induction plain) simp_all


lemma scanResponse_Inr:
  assumes "scanResponse L env w p method resource query body unmarshal = (w', Inr r)"
  shows "\<exists>keyDecoded.
           NewRequest_refuses L method
             (RemoteAddress (clients w p) @ methodURL L (clients w p) resource query) = None \<and>
           DecodeString L (Key (clients w p)) = Some keyDecoded \<and>
           w' = w\<lparr>clients := (clients w)(p := (clients w p)\<lparr>nonce := nonce (clients w p) + 1\<rparr>),
                   wire := wire w @ [signed_request L env (clients w p) method resource query body
                                       keyDecoded]\<rparr>"
proof (cases "NewRequest_refuses L method
                (RemoteAddress (clients w p) @ methodURL L (clients w p) resource query)")
  case (Some err)
  with assms show ?thesis by (simp add: scanResponse_refused)
next
  case None
  show ?thesis
  proof (cases "DecodeString L (Key (clients w p))")
    case dn: None
    with None assms show ?thesis by (simp add: scanResponse_bad_key)
  next
    case (Some keyDecoded)
    with None assms show ?thesis by (auto simp add: scanResponse_sent)
  qed
qed

lemma GetGrids_success:
  assumes "GetGrids L env w p = (w', Returns (Some response, None))"
  shows "\<exists>response0 envelope data0 plain.
           scanResponse L env w p ''GET'' ''session/grids'' None None (Unmarshal_GridListResponse L) =
             (w', Inr response0) \<and>
           Embedded response0 = Some envelope \<and> Error envelope = None \<and>
           Data response0 = Some data0 \<and> Grids data0 = map Some plain \<and>
           response = response0\<lparr>Data :=
             Some (data0\<lparr>Grids := map (\<lambda>g. Some (g\<lparr>Grid_client := Some p\<rparr>)) plain\<rparr>)\<rparr>"
proof -
  let ?r = "scanResponse L env w p ''GET'' ''session/grids'' None None (Unmarshal_GridListResponse L)"
  from assms obtain response0 where r0: "snd ?r = Inr response0"
    by (cases "snd ?r") (auto simp add: GetGrids_def Let_def)
  from assms r0 obtain envelope where e: "Embedded response0 = Some envelope"
    by (cases "Embedded response0") (auto simp add: GetGrids_def Let_def)
  from assms r0 e have en: "Error envelope = None"
    by (cases "Error envelope") (auto simp add: GetGrids_def Let_def)
  from assms r0 e en obtain data0 where d: "Data response0 = Some data0"
    by (cases "Data response0") (auto simp add: GetGrids_def Let_def)
  from assms r0 e en d obtain grids where g: "wire_grids p (Grids data0) = Some grids"
    by (cases "wire_grids p (Grids data0)") (auto simp add: GetGrids_def Let_def)
  from assms r0 e en d g have
    w': "w' = fst ?r" and resp: "response = response0\<lparr>Data := Some (data0\<lparr>Grids := grids\<rparr>)\<rparr>"
    by (auto simp add: GetGrids_def Let_def)
  from wire_grids_Some [OF g] obtain plain where
    "Grids data0 = map Some plain" "grids = map (\<lambda>g. Some (g\<lparr>Grid_client := Some p\<rparr>)) plain"
    by blast
  moreover from w' r0 have "?r = (w', Inr response0)"
    by (simp add: prod_eq_iff)
  ultimately show ?thesis using e en d resp by blast
qed

lemma GetGrids_returns:
  assumes "snd (scanResponse L env w p ''GET'' ''session/grids'' None None
                  (Unmarshal_GridListResponse L)) = Inr response"
    and "Embedded response = Some envelope" and "Error envelope = None"
    and "Data response = Some data" and "Grids data = map Some plain"
  shows "snd (GetGrids L env w p) =
           Returns (Some (response\<lparr>Data :=
                      Some (data\<lparr>Grids := map (\<lambda>g. Some (g\<lparr>Grid_client := Some p\<rparr>)) plain\<rparr>)\<rparr>),
                    None)"
  using assms by (simp add: GetGrids_def Let_def wire_grids_map_Some)

text \<open>
  Claim C4: every grid in the response of a successful \<open>GetGrids\<close> has its
  back-reference set to the client the call was made on, and \<open>Delete\<close> on that grid is
  \<open>DeleteGrid\<close> on that client with the grid's own \<open>EntityID\<close>: every request it sends
  is a \<^verbatim>\<open>DELETE\<close> of \<^verbatim>\<open>session/grids/\<close> followed by the decimal identifier, under the
  client's address and base path, and it does send one unless \<^verbatim>\<open>http.NewRequest\<close> refuses
  that URL (the key is known to decode, since \<open>GetGrids\<close> succeeded with it).
\<close>

theorem grid_delete_after_GetGrids:
  assumes "GetGrids L env w p = (w', Returns (Some response, None))"
    and "Data response = Some data"
    and "Some grid \<in> set (Grids data)"
  shows "Grid_client grid = Some p \<and>
         Grid_Delete L env' w' grid =
           map_prod id Returns (DeleteGrid L env' w' p (Grid_EntityID grid)) \<and>
         (\<forall>request. wire (fst (Grid_Delete L env' w' grid)) = wire w' @ [request] \<longrightarrow>
            Method request = ''DELETE'' \<and>
            URL request = RemoteAddress (clients w p) @ BaseURL (clients w p) @
                          ''/session/grids/'' @ Sprint (Grid_EntityID grid)) \<and>
         (NewRequest_refuses L ''DELETE''
            (RemoteAddress (clients w p) @ BaseURL (clients w p) @
             ''/session/grids/'' @ Sprint (Grid_EntityID grid)) = None \<longrightarrow>
            (\<exists>request. wire (fst (Grid_Delete L env' w' grid)) = wire w' @ [request]))"
proof -
  from GetGrids_success [OF assms(1)] obtain response0 envelope data0 plain where
    scan: "scanResponse L env w p ''GET'' ''session/grids'' None None (Unmarshal_GridListResponse L) =
             (w', Inr response0)" and
    resp: "response = response0\<lparr>Data :=
             Some (data0\<lparr>Grids := map (\<lambda>g. Some (g\<lparr>Grid_client := Some p\<rparr>)) plain\<rparr>)\<rparr>"
    by blast
  from resp assms(2) have "Grids data = map (\<lambda>g. Some (g\<lparr>Grid_client := Some p\<rparr>)) plain"
    by auto
  with assms(3) have c: "Grid_client grid = Some p"
    by auto
  from scanResponse_Inr [OF scan] obtain keyDecoded where
    key: "DecodeString L (Key (clients w p)) = Some keyDecoded" and
    w': "w' = w\<lparr>clients := (clients w)(p := (clients w p)\<lparr>nonce := nonce (clients w p) + 1\<rparr>),
                 wire := wire w @ [signed_request L env (clients w p) ''GET'' ''session/grids'' None None
                                     keyDecoded]\<rparr>"
    by blast
  from w' have same:
    "RemoteAddress (clients w' p) = RemoteAddress (clients w p)"
    "BaseURL (clients w' p) = BaseURL (clients w p)"
    "Key (clients w' p) = Key (clients w p)"
    by simp_all
  let ?res = "''session/grids/'' @ Sprint (Grid_EntityID grid)"
  have del: "Grid_Delete L env' w' grid =
               map_prod id Returns (DeleteGrid L env' w' p (Grid_EntityID grid))"
    using c by (simp add: Grid_Delete_def)
  have wire_del: "wire (fst (Grid_Delete L env' w' grid)) =
                    wire (fst (scanResponse L env' w' p ''DELETE'' ?res None None (Unmarshal_Response L)))"
    by (simp add: del DeleteGrid_def)
  have url: "RemoteAddress (clients w' p) @ methodURL L (clients w' p) ?res None =
             RemoteAddress (clients w p) @ BaseURL (clients w p) @ ''/session/grids/'' @
             Sprint (Grid_EntityID grid)"
    by (simp add: methodURL_def same)
  have sent: "Method request = ''DELETE'' \<and>
              URL request = RemoteAddress (clients w p) @ BaseURL (clients w p) @
                            ''/session/grids/'' @ Sprint (Grid_EntityID grid)"
    if "wire (fst (Grid_Delete L env' w' grid)) = wire w' @ [request]" for request
  proof -
    from that wire_del have
      "wire (fst (scanResponse L env' w' p ''DELETE'' ?res None None (Unmarshal_Response L))) =
         wire w' @ [request]"
      by simp
    from scanResponse_wire [OF this] obtain k where
      "request = signed_request L env' (clients w' p) ''DELETE'' ?res None None k"
      by blast
    then show ?thesis using url by (simp add: signed_request_def)
  qed
  have goes: "\<exists>request. wire (fst (Grid_Delete L env' w' grid)) = wire w' @ [request]"
    if "NewRequest_refuses L ''DELETE''
          (RemoteAddress (clients w p) @ BaseURL (clients w p) @
           ''/session/grids/'' @ Sprint (Grid_EntityID grid)) = None"
  proof -
    from that url have
      "NewRequest_refuses L ''DELETE''
         (RemoteAddress (clients w' p) @ methodURL L (clients w' p) ?res None) = None"
      by simp
    moreover from key same have "DecodeString L (Key (clients w' p)) = Some keyDecoded"
      by simp
    ultimately show ?thesis
      unfolding wire_del by (simp add: scanResponse_sent)
  qed
  from c del sent goes show ?thesis by blast
qed

lemma GetGrids_fst:
  "fst (GetGrids L env w p) =
   fst (scanResponse L env w p ''GET'' ''session/grids'' None None (Unmarshal_GridListResponse L))"
  by (simp add: GetGrids_def Let_def split: sum.split option.split)

lemma example_GetGrids_four:
  "snd (GetGrids example_lib (example_io 200 body_four_grids) (example_world (example_client 7)) 0) =
   Returns
     (Some \<lparr>Embedded = Some example_meta,
            Data = Some \<lparr>Grids = [Some ((example_grid 101 5)\<lparr>Grid_client := Some 0\<rparr>),
                                   Some ((example_grid 102 1)\<lparr>Grid_client := Some 0\<rparr>),
                                   Some ((example_grid 103 3)\<lparr>Grid_client := Some 0\<rparr>),
                                   Some ((example_grid 104 (- 1))\<lparr>Grid_client := Some 0\<rparr>)]\<rparr>\<rparr>,
      None)"
  by (simp add: GetGrids_def Let_def example_scan_grids)
     (simp add: example_lib_def example_meta_def)

lemma example_world_after_GetGrids:
  "fst (GetGrids example_lib (example_io 200 body) (example_world (example_client 7)) 0) =
   \<lparr>clients = (\<lambda>p. example_client 7)(0 := example_client 8),
    wire = [signed_request example_lib (example_io 200 body) (example_client 7)
              ''GET'' ''session/grids'' None None ''decoded(a2V5)'']\<rparr>"
  by (simp add: GetGrids_fst scanResponse_sent [where keyDecoded = "''decoded(a2V5)''"]
      example_lib_def example_world_def example_client_def is_base64_symbol_def is_control_def
      methodURL_def)

theorem grid_delete_after_GetGrids_witness:
  "snd (GetGrids example_lib (example_io 200 body_four_grids) (example_world (example_client 7)) 0) =
     Returns
       (Some \<lparr>Embedded = Some example_meta,
              Data = Some \<lparr>Grids = [Some ((example_grid 101 5)\<lparr>Grid_client := Some 0\<rparr>),
                                     Some ((example_grid 102 1)\<lparr>Grid_client := Some 0\<rparr>),
                                     Some ((example_grid 103 3)\<lparr>Grid_client := Some 0\<rparr>),
                                     Some ((example_grid 104 (- 1))\<lparr>Grid_client := Some 0\<rparr>)]\<rparr>\<rparr>,
        None) \<and>
   Grid_client ((example_grid 102 1)\<lparr>Grid_client := Some 0\<rparr>) = Some 0 \<and>
   map (\<lambda>request. (Method request, URL request))
     (wire (fst (Grid_Delete example_lib (example_io 200 body_meta_only)
                   (fst (GetGrids example_lib (example_io 200 body_four_grids)
                           (example_world (example_client 7)) 0))
                   ((example_grid 102 1)\<lparr>Grid_client := Some 0\<rparr>)))) =
     [(''GET'', ''http://localhost:8080/vrageremote/v1/session/grids''),
      (''DELETE'', ''http://localhost:8080/vrageremote/v1/session/grids/102'')]"
proof -
  let ?w = "example_world (example_client 7)"
  let ?g = "GetGrids example_lib (example_io 200 body_four_grids) ?w 0"
  let ?data = "\<lparr>Grids = [Some ((example_grid 101 5)\<lparr>Grid_client := Some 0\<rparr>),
                          Some ((example_grid 102 1)\<lparr>Grid_client := Some 0\<rparr>),
                          Some ((example_grid 103 3)\<lparr>Grid_client := Some 0\<rparr>),
                          Some ((example_grid 104 (- 1))\<lparr>Grid_client := Some (0::nat)\<rparr>)]\<rparr>"
  let ?response = "\<lparr>Embedded = Some example_meta, Data = Some ?data\<rparr>"
  let ?grid = "(example_grid 102 1)\<lparr>Grid_client := Some 0\<rparr>"
  have h1: "?g = (fst ?g, Returns (Some ?response, None))"
    by (simp add: prod_eq_iff example_GetGrids_four)
  have h2: "Data ?response = Some ?data" by simp
  have h3: "Some ?grid \<in> set (Grids ?data)" by simp
  have free: "NewRequest_refuses example_lib ''DELETE''
            (RemoteAddress (clients ?w 0) @ BaseURL (clients ?w 0) @
             ''/session/grids/'' @ Sprint (Grid_EntityID ?grid)) = None"
    by (simp add: example_defs example_grid_def Sprint_eval)
  from grid_delete_after_GetGrids [OF h1 h2 h3, of "example_io 200 body_meta_only"] free
  obtain request where
    r: "wire (fst (Grid_Delete example_lib (example_io 200 body_meta_only) (fst ?g) ?grid)) =
          wire (fst ?g) @ [request]"
       "Method request = ''DELETE''"
       "URL request = RemoteAddress (clients ?w 0) @ BaseURL (clients ?w 0) @
                      ''/session/grids/'' @ Sprint (Grid_EntityID ?grid)"
    by blast
  have u: "RemoteAddress (clients ?w 0) @ BaseURL (clients ?w 0) @
             ''/session/grids/'' @ Sprint (Grid_EntityID ?grid) =
           ''http://localhost:8080/vrageremote/v1/session/grids/102''"
    by (simp add: example_defs example_grid_def Sprint_eval)
  let ?first = "signed_request example_lib (example_io 200 body_four_grids) (example_client 7)
                  ''GET'' ''session/grids'' None None ''decoded(a2V5)''"
  have first: "Method ?first = ''GET''"
    "URL ?first = ''http://localhost:8080/vrageremote/v1/session/grids''"
    by (simp_all add: signed_request_def methodURL_def example_client_def)
  have "map (\<lambda>request. (Method request, URL request))
          (wire (fst (Grid_Delete example_lib (example_io 200 body_meta_only) (fst ?g) ?grid))) =
        [(Method ?first, URL ?first), (Method request, URL request)]"
    unfolding r(1) by (simp add: example_world_after_GetGrids)
  then show ?thesis
    unfolding first r(2) r(3) u
    by (simp add: example_GetGrids_four example_grid_def)
qed

subsection \<open>Nearest grids\<close>

lemma Distance_is_DistanceTo: "Distance F ap bp = DistanceTo F ap bp"
  by (simp add: Distance_def DistanceTo_def)







subsection \<open>The nonce over a run of calls\<close>







lemma sint_add_of_nat:
  fixes n :: int64
  assumes "sint n + int k < 2 ^ 63"
  shows "sint (n + of_nat k) = sint n + int k"
proof -
  have low: "- (2 ^ 63) \<le> sint n"
    using sint_ge [of n] by simp
  have "n + of_nat k = word_of_int (sint n + int k)"
    by simp
  then have "sint (n + of_nat k) = signed_take_bit 63 (sint n + int k)"
    by (simp only: sint_sbintrunc') simp
  also have "\<dots> = sint n + int k"
    using assms low by (simp add: signed_take_bit_int_eq_self)
  finally show ?thesis .
qed








subsection \<open>The nonce under interleaving\<close>

lemma consistent_start: "consistent n0 0 (start n0)"
  unfolding consistent_def start_def
  by (rule exI [of _ 0], rule exI [of _ "[]"]) simp

lemma consistent_fire:
  assumes "consistent n0 n s" and "fire s e = Some s'"
  shows "consistent n0 (Suc n) s'"
proof -
  from assms(1) obtain j ks where
    j: "j \<le> n" and c: "counter s = n0 + of_nat j" and
    sg: "signed s = map (\<lambda>k. n0 + of_nat k) ks" and so: "sorted_wrt (<) ks" and
    below: "\<forall>k\<in>set ks. k < j" and
    excl: "\<forall>t. places s t \<noteq> Outside \<longrightarrow> requestMutex s = Some t" and
    st: "\<forall>t m. places s t = Stamped m \<longrightarrow> m = n0 + of_nat j" and
    ld: "\<forall>t m v. places s t = Loaded m v \<longrightarrow> m = n0 + of_nat j \<and> v = n0 + of_nat j" and
    ct: "\<forall>t m. places s t = Counted m \<longrightarrow> 0 < j \<and> m = n0 + of_nat (j - 1) \<and> (\<forall>k\<in>set ks. k < j - 1)"
    unfolding consistent_def by blast
  have only: "places s u = Outside" if "places s t \<noteq> Outside" "u \<noteq> t" for t u
    using excl that by (metis option.inject)
  show ?thesis
  proof (cases e)
    case (Lock t)
    with assms(2) have f: "requestMutex s = None" "places s t = Outside"
      "s' = s\<lparr>requestMutex := Some t, places := (places s)(t := Building)\<rparr>"
      by (auto split: if_splits)
    from f(1) excl have "\<forall>u. places s u = Outside" by auto
    then show ?thesis
      unfolding consistent_def f(3)
      using j c sg so below
      by (intro exI [of _ j] exI [of _ ks]) simp
  next
    case (Refused t)
    with assms(2) have f: "places s t = Building" "s' = leave s t"
      by (auto split: if_splits)
    then have "\<forall>u. u \<noteq> t \<longrightarrow> places s u = Outside" using only [of t] by auto
    then show ?thesis
      unfolding consistent_def f(2) leave_def
      using j c sg so below
      by (intro exI [of _ j] exI [of _ ks]) simp
  next
    case (ReadNonce t)
    with assms(2) have f: "places s t = Building"
      "s' = s\<lparr>places := (places s)(t := Stamped (counter s))\<rparr>"
      by (auto split: if_splits)
    then have o: "\<forall>u. u \<noteq> t \<longrightarrow> places s u = Outside" using only [of t] by auto
    from f(1) excl have "requestMutex s = Some t" by auto
    then show ?thesis
      unfolding consistent_def f(2)
      using j c sg so below o
      by (intro exI [of _ j] exI [of _ ks]) simp
  next
    case (LoadCounter t)
    with assms(2) obtain m where f: "places s t = Stamped m"
      "s' = s\<lparr>places := (places s)(t := Loaded m (counter s))\<rparr>"
      by (auto split: place.splits)
    then have o: "\<forall>u. u \<noteq> t \<longrightarrow> places s u = Outside" using only [of t] by auto
    from f(1) excl have mu: "requestMutex s = Some t" by auto
    from f(1) st have m: "m = n0 + of_nat j" by auto
    show ?thesis
      unfolding consistent_def f(2)
      using j c sg so below o mu m
      by (intro exI [of _ j] exI [of _ ks]) simp
  next
    case (StoreCounter t)
    with assms(2) obtain m v where f: "places s t = Loaded m v"
      "s' = s\<lparr>counter := v + 1, places := (places s)(t := Counted m)\<rparr>"
      by (auto split: place.splits)
    then have o: "\<forall>u. u \<noteq> t \<longrightarrow> places s u = Outside" using only [of t] by auto
    from f(1) excl have mu: "requestMutex s = Some t" by auto
    from f(1) ld have m: "m = n0 + of_nat j" "v = n0 + of_nat j" by auto
    show ?thesis
      unfolding consistent_def f(2)
      using j c sg so below o mu m
      by (intro exI [of _ "Suc j"] exI [of _ ks]) (auto simp add: less_Suc_eq)
  next
    case (BadKey t)
    with assms(2) obtain m where f: "places s t = Counted m" "s' = leave s t"
      by (auto split: place.splits)
    then have "\<forall>u. u \<noteq> t \<longrightarrow> places s u = Outside" using only [of t] by auto
    then show ?thesis
      unfolding consistent_def f(2) leave_def
      using j c sg so below
      by (intro exI [of _ j] exI [of _ ks]) simp
  next
    case (Sign t)
    with assms(2) obtain m where f: "places s t = Counted m"
      "s' = s\<lparr>signed := signed s @ [m], places := (places s)(t := Signed)\<rparr>"
      by (auto split: place.splits)
    then have o: "\<forall>u. u \<noteq> t \<longrightarrow> places s u = Outside" using only [of t] by auto
    from f(1) excl have mu: "requestMutex s = Some t" by auto
    from f(1) ct have m: "0 < j" "m = n0 + of_nat (j - 1)" "\<forall>k\<in>set ks. k < j - 1" by auto
    show ?thesis
      unfolding consistent_def f(2)
      using j c sg so below o mu m
      by (intro exI [of _ j] exI [of _ "ks @ [j - 1]"]) (auto simp add: sorted_wrt_append)
  next
    case (Return t)
    with assms(2) have f: "places s t = Signed" "s' = leave s t"
      by (auto split: if_splits)
    then have "\<forall>u. u \<noteq> t \<longrightarrow> places s u = Outside" using only [of t] by auto
    then show ?thesis
      unfolding consistent_def f(2) leave_def
      using j c sg so below
      by (intro exI [of _ j] exI [of _ ks]) simp
  qed
qed

lemma consistent_schedule:
  assumes "consistent n0 n s" and "schedule s es = Some s'"
  shows "consistent n0 (n + length es) s'"
  using assms
proof (induction es arbitrary: n s)
  case Nil
  then show ?case by simp
next
  case (Cons e es)
  from Cons.prems(2) obtain s1 where s1: "fire s e = Some s1" "schedule s1 es = Some s'"
    by (auto split: option.splits)
  from consistent_fire [OF Cons.prems(1) s1(1)] have "consistent n0 (Suc n) s1" .
  from Cons.IH [OF this s1(2)] show ?case by simp
qed

lemma interleaved_nonces_increase:
  assumes "schedule (start n0) es = Some s"
    and "sint n0 + int (length es) \<le> 2 ^ 63"
  shows "sorted_wrt (\<lambda>a b. sint a < sint b) (signed s)"
proof -
  from consistent_schedule [OF consistent_start assms(1)] obtain j ks where
    j: "j \<le> length es" and sg: "signed s = map (\<lambda>k. n0 + of_nat k) ks" and
    so: "sorted_wrt (<) ks" and below: "\<forall>k\<in>set ks. k < j"
    unfolding consistent_def by auto
  have eq: "sint (n0 + of_nat k) = sint n0 + int k" if "k \<in> set ks" for k
    using that below j assms(2) by (intro sint_add_of_nat) fastforce
  have "sorted_wrt (\<lambda>a b. sint (n0 + of_nat a) < sint (n0 + of_nat b)) ks"
    using so by (rule sorted_wrt_mono_rel [rotated]) (simp add: eq)
  then show ?thesis
    by (simp add: sg sorted_wrt_map)
qed

lemma mutual_exclusion:
  assumes "schedule (start n0) es = Some s" and "places s t \<noteq> Outside" and "places s u \<noteq> Outside"
  shows "t = u"
proof -
  from consistent_schedule [OF consistent_start assms(1)] have
    "\<forall>t. places s t \<noteq> Outside \<longrightarrow> requestMutex s = Some t"
    unfolding consistent_def by auto
  with assms(2,3) show ?thesis by (metis option.inject)
qed

end
